theory Spec2Isabelle
  imports Complex_Main
begin

section \<open>Values\<close>

text \<open>
  \<^verbatim>\<open>app/models.py\<close> is a catalog of SQLModel classes: every class body is a list of
  annotated fields, most of them with a \<^verbatim>\<open>Field(...)\<close> call that carries the default and
  the constraints. The catalog is embedded as data (one definition per class, one list
  entry per field, one list entry per keyword argument), and the meaning of the
  declarations is given by a validator that takes an input mapping from field names to
  values and returns either the list of field errors or the validated object, as
  \<^verbatim>\<open>Model.model_validate(data)\<close> does for the declared annotation, default and constraints,
  and by a constructor, \<^verbatim>\<open>Model(**data)\<close>, which validates only for the classes that are
  not tables.

  Values are the Python values the annotations of the file range over. A
  \<^verbatim>\<open>Decimal\<close> is its \<^verbatim>\<open>as_tuple()\<close>: sign, coefficient digits (most significant first)
  and exponent. An enumeration member is its class name and member name.
\<close>

datatype date = Date int int int

datatype datetime = DateTime int int int int int int

datatype decimal = Decimal (sign: bool) (digits: "nat list") (exponent: int)

datatype val =
    VNone
  | VBool bool
  | VInt int
  | VStr string
  | VDecimal decimal
  | VDate date
  | VDateTime datetime
  | VEnum string string
  | VList "val list"
  | VDict "(string \<times> val) list"

text \<open>\<^verbatim>\<open>date\<close> objects compare by year, then month, then day.\<close>

fun date_less :: "date \<Rightarrow> date \<Rightarrow> bool" where
  "date_less (Date y1 m1 d1) (Date y2 m2 d2) =
     (y1 < y2 \<or> (y1 = y2 \<and> (m1 < m2 \<or> (m1 = m2 \<and> d1 < d2))))"

text \<open>The coefficient of a decimal as an integer, and the number the decimal denotes:
  \<open>(-1) ^ sign * coefficient * 10 ^ exponent\<close>.\<close>

definition coefficient :: "nat list \<Rightarrow> int" where
  "coefficient ds = foldl (\<lambda>acc d. 10 * acc + int d) 0 ds"

definition dec_value :: "decimal \<Rightarrow> rat" where
  "dec_value d =
     (if sign d then - 1 else 1) * of_int (coefficient (digits d)) *
     (if 0 \<le> exponent d then 10 ^ nat (exponent d) else 1 / 10 ^ nat (- exponent d))"

section \<open>Enumerations\<close>

text \<open>A \<^verbatim>\<open>class X(str, Enum)\<close> is its name and its members, each \<^verbatim>\<open>NAME = "value"\<close>.\<close>

datatype enum_decl = Enum (enum_name: string) (members: "(string \<times> string) list")

definition DataSourceType :: enum_decl where
  "DataSourceType = Enum ''DataSourceType''
     [(''STEO'', ''STEO''),
      (''PSM'', ''PSM''),
      (''WEEKLY'', ''WEEKLY'')]"

definition ProductType :: enum_decl where
  "ProductType = Enum ''ProductType''
     [(''CRUDE_OIL'', ''CRUDE_OIL''),
      (''GASOLINE'', ''GASOLINE''),
      (''DISTILLATE'', ''DISTILLATE''),
      (''RESIDUAL'', ''RESIDUAL''),
      (''JET_FUEL'', ''JET_FUEL''),
      (''PROPANE'', ''PROPANE''),
      (''NATURAL_GAS'', ''NATURAL_GAS'')]"

definition DispositionType :: enum_decl where
  "DispositionType = Enum ''DispositionType''
     [(''PRODUCTION'', ''PRODUCTION''),
      (''IMPORTS'', ''IMPORTS''),
      (''EXPORTS'', ''EXPORTS''),
      (''STOCK_CHANGE'', ''STOCK_CHANGE''),
      (''REFINERY_INPUT'', ''REFINERY_INPUT''),
      (''DEMAND'', ''DEMAND'')]"

definition ScenarioType :: enum_decl where
  "ScenarioType = Enum ''ScenarioType''
     [(''BASELINE'', ''BASELINE''),
      (''HURRICANE'', ''HURRICANE''),
      (''SUPPLY_SHOCK'', ''SUPPLY_SHOCK''),
      (''DEMAND_SURGE'', ''DEMAND_SURGE''),
      (''REFINERY_OUTAGE'', ''REFINERY_OUTAGE'')]"

definition SeverityLevel :: enum_decl where
  "SeverityLevel = Enum ''SeverityLevel''
     [(''LOW'', ''LOW''),
      (''MODERATE'', ''MODERATE''),
      (''HIGH'', ''HIGH''),
      (''EXTREME'', ''EXTREME'')]"

text \<open>The enumerations of the file.\<close>

definition enums :: "enum_decl list" where
  "enums = [DataSourceType, ProductType, DispositionType, ScenarioType, SeverityLevel]"

text \<open>\<^verbatim>\<open>X(value)\<close>: the first member whose value is the given string, if any. A member of
  a \<^verbatim>\<open>(str, Enum)\<close> class is itself a string, equal to its value: \<open>member_value\<close> is the
  value of the member \<open>name\<close> of the class \<open>c\<close>.\<close>

fun member_value :: "enum_decl list \<Rightarrow> string \<Rightarrow> string \<Rightarrow> string option" where
  "member_value [] c name = None"
| "member_value (E # Es) c name =
     (if enum_name E = c then map_of (members E) name else member_value Es c name)"

fun by_value :: "(string \<times> string) list \<Rightarrow> string \<Rightarrow> string option" where
  "by_value [] s = None"
| "by_value ((name, v) # ms) s = (if v = s then Some name else by_value ms s)"

section \<open>Field declarations\<close>

text \<open>
  An annotation is the type written after the colon; the keyword arguments are those of
  the \<^verbatim>\<open>Field(...)\<close> call, in the order written (an attribute with no \<^verbatim>\<open>Field\<close> call has
  none). \<^verbatim>\<open>Dict[str, Any]\<close> is \<open>TDict\<close>.
\<close>

datatype ann =
    TInt
  | TStr
  | TBool
  | TDate
  | TDateTime
  | TDecimal
  | TEnum enum_decl
  | TList ann
  | TDict
  | TOptional ann

datatype factory = utcnow

datatype column = JSON

datatype kwarg =
    Default val
  | DefaultFactory factory
  | PrimaryKey bool
  | Index bool
  | Unique bool
  | ForeignKey string
  | MaxLength nat
  | Ge int
  | Le int
  | DecimalPlaces nat
  | MaxDigits nat
  | SaColumn column

datatype field = Field (fname: string) (annotation: ann) (kwargs: "kwarg list")

text \<open>A \<^verbatim>\<open>Relationship(back_populates=...)\<close> attribute: its name, the annotation and the
  name of the attribute on the other side. Relationship attributes are not fields.\<close>

datatype rel_ann = RelOne string | RelOptional string | RelList string

datatype relationship = Relationship string rel_ann string

datatype model = Model
  (cls_name: string)
  (table: bool)
  (tablename: "string option")
  (model_fields: "field list")
  (relationships: "relationship list")

datatype dflt = Value val | Factory factory

fun kw_default :: "kwarg list \<Rightarrow> dflt option" where
  "kw_default [] = None"
| "kw_default (Default v # ks) = Some (Value v)"
| "kw_default (DefaultFactory f # ks) = Some (Factory f)"
| "kw_default (k # ks) = kw_default ks"

fun kw_ge :: "kwarg list \<Rightarrow> int option" where
  "kw_ge [] = None"
| "kw_ge (Ge n # ks) = Some n"
| "kw_ge (k # ks) = kw_ge ks"

fun kw_le :: "kwarg list \<Rightarrow> int option" where
  "kw_le [] = None"
| "kw_le (Le n # ks) = Some n"
| "kw_le (k # ks) = kw_le ks"

fun kw_max_length :: "kwarg list \<Rightarrow> nat option" where
  "kw_max_length [] = None"
| "kw_max_length (MaxLength n # ks) = Some n"
| "kw_max_length (k # ks) = kw_max_length ks"

fun kw_decimal_places :: "kwarg list \<Rightarrow> nat option" where
  "kw_decimal_places [] = None"
| "kw_decimal_places (DecimalPlaces n # ks) = Some n"
| "kw_decimal_places (k # ks) = kw_decimal_places ks"

fun kw_max_digits :: "kwarg list \<Rightarrow> nat option" where
  "kw_max_digits [] = None"
| "kw_max_digits (MaxDigits n # ks) = Some n"
| "kw_max_digits (k # ks) = kw_max_digits ks"

fun kw_foreign_key :: "kwarg list \<Rightarrow> string option" where
  "kw_foreign_key [] = None"
| "kw_foreign_key (ForeignKey t # ks) = Some t"
| "kw_foreign_key (k # ks) = kw_foreign_key ks"

section \<open>Validation\<close>

text \<open>
  The constraints mean what the library documents for them:
  \<^item> \<^verbatim>\<open>ge\<close>, \<^verbatim>\<open>le\<close>: inclusive bounds on an integer;
  \<^item> \<^verbatim>\<open>max_length\<close>: the greatest length of a string;
  \<^item> \<^verbatim>\<open>max_digits\<close>: the greatest number of digits of a decimal, not counting a zero
    before the decimal point or trailing decimal zeroes;
  \<^item> \<^verbatim>\<open>decimal_places\<close>: the greatest number of decimal places, not counting trailing
    decimal zeroes; with both set, the digits before the point are bounded by their
    difference;
  \<^item> an enumeration field takes a string that is the value of a member, and becomes that
    member; a member of an enumeration of the file is taken as the string it is;
  \<^item> \<^verbatim>\<open>Optional[T]\<close> also takes \<^verbatim>\<open>None\<close>;
  \<^item> a field left out of the input takes its default (\<^verbatim>\<open>default_factory\<close> is called),
    and is an error when it has none. Defaults are not validated.
  A value is taken by its kind: conversions between kinds (a numeric string for an
  integer, say) are not modelled, and a value of another kind is a type error.

  The validator is the library's, not the repository's: the file only declares. The
  functions below give the declarations the meaning above.
\<close>

datatype err_type =
    missing
  | int_type
  | greater_than_equal
  | less_than_equal
  | string_type
  | string_too_long
  | bool_type
  | date_type
  | datetime_type
  | decimal_type
  | decimal_max_digits
  | decimal_max_places
  | decimal_whole_digits
  | enum
  | list_type
  | dict_type

text \<open>
  The library counts the digits on \<^verbatim>\<open>Decimal.normalize()\<close>, which first rounds the decimal
  to the precision of the context and then moves the trailing zeroes of the coefficient
  into the exponent; zero is \<open>0E0\<close>. The context is the default one: 28 digits, rounding
  half to even. A coefficient of more than 28 digits keeps its first 28; it is
  incremented when the first digit dropped is 5 or more, unless the digits dropped are
  exactly one half and the last digit kept is even; an increment that carries into a
  29th digit drops the last digit again. The exponent limits of the context are not
  modelled: \<open>context_exact\<close> holds of the decimals that the context neither rounds nor
  refuses.
\<close>

definition prec :: nat where
  "prec = 28"




fun increment :: "nat list \<Rightarrow> nat list" where
  "increment [] = [1]"
| "increment (d # ds) = (if d = 9 then 0 # increment ds else Suc d # ds)"

definition round_half_even :: "nat list \<Rightarrow> int \<Rightarrow> nat list \<times> int" where
  "round_half_even ds e =
     (let kept = take prec ds; rest = drop prec ds;
          up = (case rest of
                  [] \<Rightarrow> False
                | r # rs \<Rightarrow> 5 \<le> r \<and> \<not> (r = 5 \<and> list_all (\<lambda>x. x = 0) rs \<and> even (last kept)));
          e' = e + int (length rest);
          coeff = (if up then rev (increment (rev kept)) else kept)
      in if prec < length coeff then (butlast coeff, e' + 1) else (coeff, e'))"

fun strip_zeros :: "nat list \<Rightarrow> int \<Rightarrow> nat list \<times> int" where
  "strip_zeros [] e = ([], e)"
| "strip_zeros (d # ds) e =
     (if d = 0 then strip_zeros ds (e + 1) else (d # ds, e))"

definition normalize :: "decimal \<Rightarrow> decimal" where
  "normalize d =
     (let ds = dropWhile (\<lambda>x. x = 0) (digits d);
          (c, e) = (if prec < length ds then round_half_even ds (exponent d)
                    else (ds, exponent d))
      in case strip_zeros (rev c) e of
           ([], e') \<Rightarrow> Decimal (sign d) [0] 0
         | (r, e') \<Rightarrow> Decimal (sign d) (rev r) e')"

text \<open>The number of digits and of decimal places of a decimal.\<close>

definition digits_info :: "decimal \<Rightarrow> nat \<times> nat" where
  "digits_info d =
     (let n = normalize d; len = length (digits n); e = exponent n
      in if e \<ge> 0 then (len + nat e, 0)
         else (max len (nat (- e)), nat (- e)))"

definition check_decimal :: "kwarg list \<Rightarrow> decimal \<Rightarrow> err_type + val" where
  "check_decimal ks d =
     (let (n, places) = digits_info d in
      case kw_max_digits ks of
        Some md \<Rightarrow>
          if n > md then Inl decimal_max_digits
          else (case kw_decimal_places ks of
                  Some dp \<Rightarrow>
                    if places > dp then Inl decimal_max_places
                    else if n - places > md - dp then Inl decimal_whole_digits
                    else Inr (VDecimal d)
                | None \<Rightarrow> Inr (VDecimal d))
      | None \<Rightarrow>
          (case kw_decimal_places ks of
             Some dp \<Rightarrow> if places > dp then Inl decimal_max_places else Inr (VDecimal d)
           | None \<Rightarrow> Inr (VDecimal d)))"

definition check_int :: "kwarg list \<Rightarrow> int \<Rightarrow> err_type + val" where
  "check_int ks n =
     (if (case kw_ge ks of Some lo \<Rightarrow> n < lo | None \<Rightarrow> False) then Inl greater_than_equal
      else if (case kw_le ks of Some hi \<Rightarrow> hi < n | None \<Rightarrow> False) then Inl less_than_equal
      else Inr (VInt n))"

definition check_str :: "kwarg list \<Rightarrow> string \<Rightarrow> err_type + val" where
  "check_str ks s =
     (if (case kw_max_length ks of Some m \<Rightarrow> m < length s | None \<Rightarrow> False)
      then Inl string_too_long
      else Inr (VStr s))"

definition check_enum :: "enum_decl \<Rightarrow> val \<Rightarrow> err_type + val" where
  "check_enum E v =
     (case v of
        VStr s \<Rightarrow>
          (case by_value (members E) s of
             Some name \<Rightarrow> Inr (VEnum (enum_name E) name)
           | None \<Rightarrow> Inl enum)
      | VEnum c name \<Rightarrow>
          (case member_value enums c name of
             Some s \<Rightarrow>
               (case by_value (members E) s of
                  Some name' \<Rightarrow> Inr (VEnum (enum_name E) name')
                | None \<Rightarrow> Inl enum)
           | None \<Rightarrow> Inl enum)
      | _ \<Rightarrow> Inl enum)"

fun is_ok :: "'e + 'a \<Rightarrow> bool" where
  "is_ok (Inr x) = True"
| "is_ok (Inl e) = False"

fun validate_ann :: "kwarg list \<Rightarrow> ann \<Rightarrow> val \<Rightarrow> err_type + val" where
  "validate_ann ks (TOptional a) v =
     (if v = VNone then Inr VNone else validate_ann ks a v)"
| "validate_ann ks TInt v =
     (case v of VInt n \<Rightarrow> check_int ks n | _ \<Rightarrow> Inl int_type)"
| "validate_ann ks TStr v =
     (case v of VStr s \<Rightarrow> check_str ks s | _ \<Rightarrow> Inl string_type)"
| "validate_ann ks TBool v =
     (case v of VBool b \<Rightarrow> Inr (VBool b) | _ \<Rightarrow> Inl bool_type)"
| "validate_ann ks TDate v =
     (case v of VDate d \<Rightarrow> Inr (VDate d) | _ \<Rightarrow> Inl date_type)"
| "validate_ann ks TDateTime v =
     (case v of VDateTime t \<Rightarrow> Inr (VDateTime t) | _ \<Rightarrow> Inl datetime_type)"
| "validate_ann ks TDecimal v =
     (case v of VDecimal d \<Rightarrow> check_decimal ks d | _ \<Rightarrow> Inl decimal_type)"
| "validate_ann ks (TEnum E) v = check_enum E v"
| "validate_ann ks (TList a) v =
     (case v of
        VList xs \<Rightarrow>
          (if list_all (\<lambda>x. is_ok (validate_ann [] a x)) xs
           then Inr (VList xs) else Inl list_type)
      | _ \<Rightarrow> Inl list_type)"
| "validate_ann ks TDict v =
     (case v of VDict kvs \<Rightarrow> Inr (VDict kvs) | _ \<Rightarrow> Inl dict_type)"

definition validate_field :: "datetime \<Rightarrow> field \<Rightarrow> val option \<Rightarrow> err_type + val" where
  "validate_field now f given =
     (case given of
        None \<Rightarrow>
          (case kw_default (kwargs f) of
             None \<Rightarrow> Inl missing
           | Some (Value v) \<Rightarrow> Inr v
           | Some (Factory utcnow) \<Rightarrow> Inr (VDateTime now))
      | Some v \<Rightarrow> validate_ann (kwargs f) (annotation f) v)"

fun errors_of :: "(string \<times> (err_type + val)) list \<Rightarrow> (string \<times> err_type) list" where
  "errors_of [] = []"
| "errors_of ((n, Inl e) # rs) = (n, e) # errors_of rs"
| "errors_of ((n, Inr v) # rs) = errors_of rs"

fun values_of :: "(string \<times> (err_type + val)) list \<Rightarrow> (string \<times> val) list" where
  "values_of [] = []"
| "values_of ((n, Inl e) # rs) = values_of rs"
| "values_of ((n, Inr v) # rs) = (n, v) # values_of rs"

text \<open>
  Every field is validated against the input; all the errors are reported together, and
  with no error the result is the object, as the list of its attributes in declaration
  order. \<open>now\<close> is the reading of the clock that \<^verbatim>\<open>datetime.utcnow\<close> returns.
\<close>

definition model_validate ::
  "datetime \<Rightarrow> model \<Rightarrow> (string \<rightharpoonup> val) \<Rightarrow> (string \<times> err_type) list + (string \<times> val) list" where
  "model_validate now M inp =
     (let rs = map (\<lambda>f. (fname f, validate_field now f (inp (fname f)))) (model_fields M)
      in if errors_of rs = [] then Inr (values_of rs) else Inl (errors_of rs))"

section \<open>Construction\<close>

text \<open>
  \<^verbatim>\<open>Cls(**data)\<close> validates only for a class with \<^verbatim>\<open>table=False\<close>, where it is
  \<^verbatim>\<open>model_validate\<close>. The constructor of a class with \<^verbatim>\<open>table=True\<close> does not validate
  and raises no error: every field given is set to the value given, as it is; a field
  not given is set to its default; a field not given that has no default is not set.
  Reading a column attribute that was never set gives \<^verbatim>\<open>None\<close>.
\<close>

fun table_construct :: "datetime \<Rightarrow> field list \<Rightarrow> (string \<rightharpoonup> val) \<Rightarrow> (string \<times> val) list" where
  "table_construct now [] inp = []"
| "table_construct now (f # fs) inp =
     (case inp (fname f) of
        Some v \<Rightarrow> (fname f, v) # table_construct now fs inp
      | None \<Rightarrow>
          (case kw_default (kwargs f) of
             None \<Rightarrow> table_construct now fs inp
           | Some (Value v) \<Rightarrow> (fname f, v) # table_construct now fs inp
           | Some (Factory utcnow) \<Rightarrow> (fname f, VDateTime now) # table_construct now fs inp))"

definition construct ::
  "datetime \<Rightarrow> model \<Rightarrow> (string \<rightharpoonup> val) \<Rightarrow> (string \<times> err_type) list + (string \<times> val) list" where
  "construct now M inp =
     (if table M then Inr (table_construct now (model_fields M) inp)
      else model_validate now M inp)"

definition read_attr :: "(string \<times> val) list \<Rightarrow> string \<Rightarrow> val" where
  "read_attr obj name = (case map_of obj name of Some v \<Rightarrow> v | None \<Rightarrow> VNone)"

section \<open>The catalog\<close>

text \<open>One definition per class of \<^verbatim>\<open>app/models.py\<close>, in the order of the file: the name,
  \<^verbatim>\<open>table=True\<close> or \<^verbatim>\<open>table=False\<close> of the class statement, \<^verbatim>\<open>__tablename__\<close>, the fields and the
  relationships.
  \<^verbatim>\<open>Decimal("0")\<close> is \<open>Decimal False [0] 0\<close> and \<^verbatim>\<open>Decimal("1.0")\<close> is
  \<open>Decimal False [1, 0] (- 1)\<close>.\<close>

subsection \<open>Core data models\<close>

definition EIADataPoint :: model where
  "EIADataPoint = Model ''EIADataPoint'' True (Some ''eia_data_points'')
     [Field ''id'' (TOptional TInt) [Default VNone, PrimaryKey True],
      Field ''series_id'' TStr [MaxLength 100, Index True],
      Field ''data_source'' (TEnum DataSourceType) [],
      Field ''product_type'' (TEnum ProductType) [],
      Field ''disposition_type'' (TEnum DispositionType) [],
      Field ''period_date'' TDate [Index True],
      Field ''value'' TDecimal [DecimalPlaces 2, MaxDigits 15],
      Field ''unit'' TStr [MaxLength 50],
      Field ''region'' (TOptional TStr) [Default VNone, MaxLength 100],
      Field ''created_at'' TDateTime [DefaultFactory utcnow],
      Field ''updated_at'' TDateTime [DefaultFactory utcnow]]
     [Relationship ''supply_disposition_entries'' (RelList ''SupplyDisposition'') ''data_point'']"

definition STEOData :: model where
  "STEOData = Model ''STEOData'' True (Some ''steo_data'')
     [Field ''id'' (TOptional TInt) [Default VNone, PrimaryKey True],
      Field ''series_id'' TStr [MaxLength 100, Index True],
      Field ''product_type'' (TEnum ProductType) [],
      Field ''forecast_period'' TDate [],
      Field ''forecast_value'' TDecimal [DecimalPlaces 2, MaxDigits 15],
      Field ''unit'' TStr [MaxLength 50],
      Field ''confidence_interval_low'' (TOptional TDecimal)
        [Default VNone, DecimalPlaces 2, MaxDigits 15],
      Field ''confidence_interval_high'' (TOptional TDecimal)
        [Default VNone, DecimalPlaces 2, MaxDigits 15],
      Field ''created_at'' TDateTime [DefaultFactory utcnow]]
     []"

definition PSMData :: model where
  "PSMData = Model ''PSMData'' True (Some ''psm_data'')
     [Field ''id'' (TOptional TInt) [Default VNone, PrimaryKey True],
      Field ''series_id'' TStr [MaxLength 100, Index True],
      Field ''product_type'' (TEnum ProductType) [],
      Field ''disposition_type'' (TEnum DispositionType) [],
      Field ''report_month'' TDate [],
      Field ''value'' TDecimal [DecimalPlaces 2, MaxDigits 15],
      Field ''unit'' TStr [MaxLength 50],
      Field ''revision_flag'' TBool [Default (VBool False)],
      Field ''created_at'' TDateTime [DefaultFactory utcnow]]
     []"

definition WeeklyData :: model where
  "WeeklyData = Model ''WeeklyData'' True (Some ''weekly_data'')
     [Field ''id'' (TOptional TInt) [Default VNone, PrimaryKey True],
      Field ''series_id'' TStr [MaxLength 100, Index True],
      Field ''product_type'' (TEnum ProductType) [],
      Field ''disposition_type'' (TEnum DispositionType) [],
      Field ''week_ending'' TDate [Index True],
      Field ''value'' TDecimal [DecimalPlaces 2, MaxDigits 15],
      Field ''unit'' TStr [MaxLength 50],
      Field ''seasonal_adjustment'' (TOptional TStr) [Default VNone, MaxLength 50],
      Field ''created_at'' TDateTime [DefaultFactory utcnow]]
     []"

subsection \<open>Supply disposition models\<close>

definition SupplyDisposition :: model where
  "SupplyDisposition = Model ''SupplyDisposition'' True (Some ''supply_disposition'')
     [Field ''id'' (TOptional TInt) [Default VNone, PrimaryKey True],
      Field ''product_type'' (TEnum ProductType) [],
      Field ''period_date'' TDate [Index True],
      Field ''data_point_id'' (TOptional TInt) [Default VNone, ForeignKey ''eia_data_points.id''],
      Field ''production'' TDecimal
        [Default (VDecimal (Decimal False [0] 0)), DecimalPlaces 2, MaxDigits 15],
      Field ''imports'' TDecimal
        [Default (VDecimal (Decimal False [0] 0)), DecimalPlaces 2, MaxDigits 15],
      Field ''stock_withdrawal'' TDecimal
        [Default (VDecimal (Decimal False [0] 0)), DecimalPlaces 2, MaxDigits 15],
      Field ''exports'' TDecimal
        [Default (VDecimal (Decimal False [0] 0)), DecimalPlaces 2, MaxDigits 15],
      Field ''refinery_input'' TDecimal
        [Default (VDecimal (Decimal False [0] 0)), DecimalPlaces 2, MaxDigits 15],
      Field ''product_supplied'' TDecimal
        [Default (VDecimal (Decimal False [0] 0)), DecimalPlaces 2, MaxDigits 15],
      Field ''stock_build'' TDecimal
        [Default (VDecimal (Decimal False [0] 0)), DecimalPlaces 2, MaxDigits 15],
      Field ''unit'' TStr [MaxLength 50],
      Field ''region'' (TOptional TStr) [Default VNone, MaxLength 100],
      Field ''created_at'' TDateTime [DefaultFactory utcnow]]
     [Relationship ''data_point'' (RelOptional ''EIADataPoint'') ''supply_disposition_entries'']"

subsection \<open>Scenario planning models\<close>

definition Scenario :: model where
  "Scenario = Model ''Scenario'' True (Some ''scenarios'')
     [Field ''id'' (TOptional TInt) [Default VNone, PrimaryKey True],
      Field ''name'' TStr [MaxLength 200],
      Field ''description'' TStr [MaxLength 1000],
      Field ''scenario_type'' (TEnum ScenarioType) [],
      Field ''severity_level'' (TEnum SeverityLevel) [],
      Field ''start_date'' TDate [],
      Field ''end_date'' TDate [],
      Field ''hurricane_category'' (TOptional TInt) [Default VNone, Ge 1, Le 5],
      Field ''affected_regions'' (TList TStr) [Default (VList []), SaColumn JSON],
      Field ''production_impact_pct'' TDecimal
        [Default (VDecimal (Decimal False [0] 0)), DecimalPlaces 2, MaxDigits 5],
      Field ''refining_capacity_impact_pct'' TDecimal
        [Default (VDecimal (Decimal False [0] 0)), DecimalPlaces 2, MaxDigits 5],
      Field ''import_disruption_pct'' TDecimal
        [Default (VDecimal (Decimal False [0] 0)), DecimalPlaces 2, MaxDigits 5],
      Field ''parameters'' TDict [Default (VDict []), SaColumn JSON],
      Field ''is_active'' TBool [Default (VBool True)],
      Field ''created_by'' (TOptional TStr) [Default VNone, MaxLength 100],
      Field ''created_at'' TDateTime [DefaultFactory utcnow]]
     [Relationship ''scenario_impacts'' (RelList ''ScenarioImpact'') ''scenario'',
      Relationship ''price_forecasts'' (RelList ''PriceForecast'') ''scenario'']"

definition ScenarioImpact :: model where
  "ScenarioImpact = Model ''ScenarioImpact'' True (Some ''scenario_impacts'')
     [Field ''id'' (TOptional TInt) [Default VNone, PrimaryKey True],
      Field ''scenario_id'' TInt [ForeignKey ''scenarios.id''],
      Field ''product_type'' (TEnum ProductType) [],
      Field ''disposition_type'' (TEnum DispositionType) [],
      Field ''impact_date'' TDate [],
      Field ''baseline_value'' TDecimal [DecimalPlaces 2, MaxDigits 15],
      Field ''scenario_value'' TDecimal [DecimalPlaces 2, MaxDigits 15],
      Field ''impact_absolute'' TDecimal [DecimalPlaces 2, MaxDigits 15],
      Field ''impact_percentage'' TDecimal [DecimalPlaces 2, MaxDigits 5],
      Field ''unit'' TStr [MaxLength 50],
      Field ''region'' (TOptional TStr) [Default VNone, MaxLength 100],
      Field ''created_at'' TDateTime [DefaultFactory utcnow]]
     [Relationship ''scenario'' (RelOne ''Scenario'') ''scenario_impacts'']"

subsection \<open>Pricing models\<close>

definition PriceData :: model where
  "PriceData = Model ''PriceData'' True (Some ''price_data'')
     [Field ''id'' (TOptional TInt) [Default VNone, PrimaryKey True],
      Field ''product_type'' (TEnum ProductType) [],
      Field ''price_date'' TDate [Index True],
      Field ''price'' TDecimal [DecimalPlaces 4, MaxDigits 10],
      Field ''price_type'' TStr [MaxLength 50],
      Field ''location'' TStr [MaxLength 100],
      Field ''unit'' TStr [MaxLength 50],
      Field ''volume'' (TOptional TDecimal) [Default VNone, DecimalPlaces 2, MaxDigits 15],
      Field ''open_interest'' (TOptional TDecimal) [Default VNone, DecimalPlaces 2, MaxDigits 15],
      Field ''volatility'' (TOptional TDecimal) [Default VNone, DecimalPlaces 4, MaxDigits 8],
      Field ''created_at'' TDateTime [DefaultFactory utcnow]]
     []"

definition PriceForecast :: model where
  "PriceForecast = Model ''PriceForecast'' True (Some ''price_forecasts'')
     [Field ''id'' (TOptional TInt) [Default VNone, PrimaryKey True],
      Field ''scenario_id'' (TOptional TInt) [Default VNone, ForeignKey ''scenarios.id''],
      Field ''product_type'' (TEnum ProductType) [],
      Field ''forecast_date'' TDate [],
      Field ''forecast_price'' TDecimal [DecimalPlaces 4, MaxDigits 10],
      Field ''baseline_price'' TDecimal [DecimalPlaces 4, MaxDigits 10],
      Field ''price_impact'' TDecimal [DecimalPlaces 4, MaxDigits 10],
      Field ''price_impact_pct'' TDecimal [DecimalPlaces 2, MaxDigits 5],
      Field ''confidence_level'' (TOptional TDecimal) [Default VNone, DecimalPlaces 2, MaxDigits 5],
      Field ''price_type'' TStr [MaxLength 50],
      Field ''location'' TStr [MaxLength 100],
      Field ''unit'' TStr [MaxLength 50],
      Field ''created_at'' TDateTime [DefaultFactory utcnow]]
     [Relationship ''scenario'' (RelOptional ''Scenario'') ''price_forecasts'']"

subsection \<open>Seasonality models\<close>

definition SeasonalPattern :: model where
  "SeasonalPattern = Model ''SeasonalPattern'' True (Some ''seasonal_patterns'')
     [Field ''id'' (TOptional TInt) [Default VNone, PrimaryKey True],
      Field ''product_type'' (TEnum ProductType) [],
      Field ''disposition_type'' (TEnum DispositionType) [],
      Field ''month'' TInt [Ge 1, Le 12],
      Field ''region'' (TOptional TStr) [Default VNone, MaxLength 100],
      Field ''seasonal_index'' TDecimal [DecimalPlaces 4, MaxDigits 6],
      Field ''trend_factor'' TDecimal
        [Default (VDecimal (Decimal False [1, 0] (- 1))), DecimalPlaces 4, MaxDigits 6],
      Field ''volatility_multiplier'' TDecimal
        [Default (VDecimal (Decimal False [1, 0] (- 1))), DecimalPlaces 4, MaxDigits 6],
      Field ''years_of_data'' TInt [Default (VInt 10), Ge 1],
      Field ''last_updated'' TDateTime [DefaultFactory utcnow],
      Field ''created_at'' TDateTime [DefaultFactory utcnow]]
     []"

definition HurricaneHistorical :: model where
  "HurricaneHistorical = Model ''HurricaneHistorical'' True (Some ''hurricane_historical'')
     [Field ''id'' (TOptional TInt) [Default VNone, PrimaryKey True],
      Field ''hurricane_name'' TStr [MaxLength 100],
      Field ''year'' TInt [Ge 1950],
      Field ''category'' TInt [Ge 1, Le 5],
      Field ''landfall_date'' TDate [],
      Field ''affected_regions'' (TList TStr) [Default (VList []), SaColumn JSON],
      Field ''refinery_capacity_lost_pct'' TDecimal
        [Default (VDecimal (Decimal False [0] 0)), DecimalPlaces 2, MaxDigits 5],
      Field ''production_disruption_days'' TInt [Default (VInt 0), Ge 0],
      Field ''price_spike_gasoline_pct'' TDecimal
        [Default (VDecimal (Decimal False [0] 0)), DecimalPlaces 2, MaxDigits 8],
      Field ''price_spike_crude_pct'' TDecimal
        [Default (VDecimal (Decimal False [0] 0)), DecimalPlaces 2, MaxDigits 8],
      Field ''recovery_days_production'' TInt [Default (VInt 0), Ge 0],
      Field ''recovery_days_refining'' TInt [Default (VInt 0), Ge 0],
      Field ''notes'' (TOptional TStr) [Default VNone, MaxLength 1000],
      Field ''created_at'' TDateTime [DefaultFactory utcnow]]
     []"

subsection \<open>Dashboard configuration models\<close>

definition DashboardConfig :: model where
  "DashboardConfig = Model ''DashboardConfig'' True (Some ''dashboard_config'')
     [Field ''id'' (TOptional TInt) [Default VNone, PrimaryKey True],
      Field ''config_name'' TStr [MaxLength 100, Unique True],
      Field ''dashboard_type'' TStr [MaxLength 50],
      Field ''chart_configs'' TDict [Default (VDict []), SaColumn JSON],
      Field ''data_filters'' TDict [Default (VDict []), SaColumn JSON],
      Field ''refresh_interval_minutes'' TInt [Default (VInt 60), Ge 1],
      Field ''default_date_range_days'' TInt [Default (VInt 365), Ge 1],
      Field ''include_forecasts'' TBool [Default (VBool True)],
      Field ''include_scenarios'' TBool [Default (VBool False)],
      Field ''is_active'' TBool [Default (VBool True)],
      Field ''created_by'' (TOptional TStr) [Default VNone, MaxLength 100],
      Field ''created_at'' TDateTime [DefaultFactory utcnow],
      Field ''updated_at'' TDateTime [DefaultFactory utcnow]]
     []"

definition ReportTemplate :: model where
  "ReportTemplate = Model ''ReportTemplate'' True (Some ''report_templates'')
     [Field ''id'' (TOptional TInt) [Default VNone, PrimaryKey True],
      Field ''template_name'' TStr [MaxLength 200],
      Field ''report_type'' TStr [MaxLength 50],
      Field ''data_sources'' (TList TStr) [Default (VList []), SaColumn JSON],
      Field ''products_included'' (TList TStr) [Default (VList []), SaColumn JSON],
      Field ''regions_included'' (TList TStr) [Default (VList []), SaColumn JSON],
      Field ''output_format'' TStr [MaxLength 20, Default (VStr ''PDF'')],
      Field ''chart_specifications'' TDict [Default (VDict []), SaColumn JSON],
      Field ''schedule_pattern'' (TOptional TStr) [Default VNone, MaxLength 100],
      Field ''auto_send'' TBool [Default (VBool False)],
      Field ''recipients'' (TList TStr) [Default (VList []), SaColumn JSON],
      Field ''is_active'' TBool [Default (VBool True)],
      Field ''created_by'' (TOptional TStr) [Default VNone, MaxLength 100],
      Field ''created_at'' TDateTime [DefaultFactory utcnow]]
     []"

subsection \<open>Alert and monitoring models\<close>

definition DataAlert :: model where
  "DataAlert = Model ''DataAlert'' True (Some ''data_alerts'')
     [Field ''id'' (TOptional TInt) [Default VNone, PrimaryKey True],
      Field ''alert_name'' TStr [MaxLength 200],
      Field ''alert_type'' TStr [MaxLength 50],
      Field ''product_type'' (TOptional (TEnum ProductType)) [Default VNone],
      Field ''threshold_value'' (TOptional TDecimal) [Default VNone, DecimalPlaces 4, MaxDigits 15],
      Field ''threshold_operator'' (TOptional TStr) [Default VNone, MaxLength 10],
      Field ''check_frequency_minutes'' TInt [Default (VInt 60), Ge 1],
      Field ''cooldown_hours'' TInt [Default (VInt 24), Ge 1],
      Field ''severity_level'' (TEnum SeverityLevel) [Default (VEnum ''SeverityLevel'' ''MODERATE'')],
      Field ''is_active'' TBool [Default (VBool True)],
      Field ''last_triggered'' (TOptional TDateTime) [Default VNone],
      Field ''created_at'' TDateTime [DefaultFactory utcnow]]
     []"

subsection \<open>Non-persistent schemas for API and validation\<close>

definition EIADataPointCreate :: model where
  "EIADataPointCreate = Model ''EIADataPointCreate'' False None
     [Field ''series_id'' TStr [MaxLength 100],
      Field ''data_source'' (TEnum DataSourceType) [],
      Field ''product_type'' (TEnum ProductType) [],
      Field ''disposition_type'' (TEnum DispositionType) [],
      Field ''period_date'' TDate [],
      Field ''value'' TDecimal [DecimalPlaces 2, MaxDigits 15],
      Field ''unit'' TStr [MaxLength 50],
      Field ''region'' (TOptional TStr) [Default VNone, MaxLength 100]]
     []"

definition ScenarioCreate :: model where
  "ScenarioCreate = Model ''ScenarioCreate'' False None
     [Field ''name'' TStr [MaxLength 200],
      Field ''description'' TStr [MaxLength 1000],
      Field ''scenario_type'' (TEnum ScenarioType) [],
      Field ''severity_level'' (TEnum SeverityLevel) [],
      Field ''start_date'' TDate [],
      Field ''end_date'' TDate [],
      Field ''hurricane_category'' (TOptional TInt) [Default VNone, Ge 1, Le 5],
      Field ''affected_regions'' (TList TStr) [Default (VList [])],
      Field ''production_impact_pct'' TDecimal
        [Default (VDecimal (Decimal False [0] 0)), DecimalPlaces 2, MaxDigits 5],
      Field ''refining_capacity_impact_pct'' TDecimal
        [Default (VDecimal (Decimal False [0] 0)), DecimalPlaces 2, MaxDigits 5],
      Field ''import_disruption_pct'' TDecimal
        [Default (VDecimal (Decimal False [0] 0)), DecimalPlaces 2, MaxDigits 5],
      Field ''parameters'' TDict [Default (VDict [])]]
     []"

definition ScenarioUpdate :: model where
  "ScenarioUpdate = Model ''ScenarioUpdate'' False None
     [Field ''name'' (TOptional TStr) [Default VNone, MaxLength 200],
      Field ''description'' (TOptional TStr) [Default VNone, MaxLength 1000],
      Field ''severity_level'' (TOptional (TEnum SeverityLevel)) [Default VNone],
      Field ''start_date'' (TOptional TDate) [Default VNone],
      Field ''end_date'' (TOptional TDate) [Default VNone],
      Field ''production_impact_pct'' (TOptional TDecimal)
        [Default VNone, DecimalPlaces 2, MaxDigits 5],
      Field ''refining_capacity_impact_pct'' (TOptional TDecimal)
        [Default VNone, DecimalPlaces 2, MaxDigits 5],
      Field ''import_disruption_pct'' (TOptional TDecimal)
        [Default VNone, DecimalPlaces 2, MaxDigits 5],
      Field ''parameters'' (TOptional TDict) [Default VNone],
      Field ''is_active'' (TOptional TBool) [Default VNone]]
     []"

definition DashboardConfigCreate :: model where
  "DashboardConfigCreate = Model ''DashboardConfigCreate'' False None
     [Field ''config_name'' TStr [MaxLength 100],
      Field ''dashboard_type'' TStr [MaxLength 50],
      Field ''chart_configs'' TDict [Default (VDict [])],
      Field ''data_filters'' TDict [Default (VDict [])],
      Field ''refresh_interval_minutes'' TInt [Default (VInt 60), Ge 1],
      Field ''default_date_range_days'' TInt [Default (VInt 365), Ge 1],
      Field ''include_forecasts'' TBool [Default (VBool True)],
      Field ''include_scenarios'' TBool [Default (VBool False)]]
     []"

definition SupplyDispositionSummary :: model where
  "SupplyDispositionSummary = Model ''SupplyDispositionSummary'' False None
     [Field ''product_type'' (TEnum ProductType) [],
      Field ''period_date'' TDate [],
      Field ''total_supply'' TDecimal [DecimalPlaces 2, MaxDigits 15],
      Field ''total_disposition'' TDecimal [DecimalPlaces 2, MaxDigits 15],
      Field ''balance'' TDecimal [DecimalPlaces 2, MaxDigits 15],
      Field ''unit'' TStr [],
      Field ''region'' (TOptional TStr) [Default VNone]]
     []"

definition catalog :: "model list" where
  "catalog =
     [EIADataPoint, STEOData, PSMData, WeeklyData, SupplyDisposition, Scenario,
      ScenarioImpact, PriceData, PriceForecast, SeasonalPattern, HurricaneHistorical,
      DashboardConfig, ReportTemplate, DataAlert, EIADataPointCreate, ScenarioCreate,
      ScenarioUpdate, DashboardConfigCreate, SupplyDispositionSummary]"

section \<open>Derived notions\<close>

text \<open>An input is accepted when \<^verbatim>\<open>model_validate\<close> reports no error, and constructs when
  the constructor raises none.\<close>

definition accepts :: "datetime \<Rightarrow> model \<Rightarrow> (string \<rightharpoonup> val) \<Rightarrow> bool" where
  "accepts now M inp = is_ok (model_validate now M inp)"

definition constructs :: "datetime \<Rightarrow> model \<Rightarrow> (string \<rightharpoonup> val) \<Rightarrow> bool" where
  "constructs now M inp = is_ok (construct now M inp)"

text \<open>A field is nullable when its annotation is \<^verbatim>\<open>Optional[...]\<close> and its default is
  \<^verbatim>\<open>None\<close>. The foreign keys of a list of classes are the fields with a \<^verbatim>\<open>foreign_key\<close>
  argument, each with its class, its name and whether it is nullable.\<close>

fun is_optional :: "ann \<Rightarrow> bool" where
  "is_optional (TOptional a) = True"
| "is_optional a = False"

definition nullable :: "field \<Rightarrow> bool" where
  "nullable f = (is_optional (annotation f) \<and> kw_default (kwargs f) = Some (Value VNone))"

definition foreign_keys :: "model list \<Rightarrow> (string \<times> string \<times> bool) list" where
  "foreign_keys ms =
     [(cls_name M, fname f, nullable f).
        M \<leftarrow> ms, f \<leftarrow> model_fields M, kw_foreign_key (kwargs f) \<noteq> None]"

text \<open>The enumeration of an enumeration-typed annotation, and whether an annotation is
  \<^verbatim>\<open>Decimal\<close> or \<^verbatim>\<open>Optional[Decimal]\<close>.\<close>

fun enum_of :: "ann \<Rightarrow> enum_decl option" where
  "enum_of (TEnum E) = Some E"
| "enum_of (TOptional (TEnum E)) = Some E"
| "enum_of a = None"



text \<open>
  The specification's Glossary, by the name of the enumeration-typed field: data source
  type, product type, disposition type, scenario type and severity level, each with the
  literal values the Glossary lists. This definition follows the specification, not the
  source; the enumerations of the source are above.
\<close>

definition glossary :: "string \<Rightarrow> string list" where
  "glossary fld =
     (if fld = ''data_source'' then [''STEO'', ''PSM'', ''WEEKLY'']
      else if fld = ''product_type'' then
        [''CRUDE_OIL'', ''GASOLINE'', ''DISTILLATE'', ''RESIDUAL'', ''JET_FUEL'', ''PROPANE'',
         ''NATURAL_GAS'']
      else if fld = ''disposition_type'' then
        [''PRODUCTION'', ''IMPORTS'', ''EXPORTS'', ''STOCK_CHANGE'', ''REFINERY_INPUT'', ''DEMAND'']
      else if fld = ''scenario_type'' then
        [''BASELINE'', ''HURRICANE'', ''SUPPLY_SHOCK'', ''DEMAND_SURGE'', ''REFINERY_OUTAGE'']
      else if fld = ''severity_level'' then [''LOW'', ''MODERATE'', ''HIGH'', ''EXTREME'']
      else [])"

section \<open>Properties of the validator\<close>

text \<open>An input is accepted exactly when every declared field validates, a field error
  rejects the whole input, and on success each attribute holds its field's validated value.\<close>

lemma errors_of_nil:
  "errors_of (map (\<lambda>f. (fname f, g f)) fs) = [] \<longleftrightarrow> (\<forall>f\<in>set fs. is_ok (g f))"
proof (induction fs)
  case Nil show ?case by simp
next
  case (Cons f fs)
  then show ?case by (cases "g f") simp_all
qed

lemma accepts_iff:
  "accepts now M inp \<longleftrightarrow>
   (\<forall>f\<in>set (model_fields M). is_ok (validate_field now f (inp (fname f))))"
  by (simp add: accepts_def model_validate_def Let_def errors_of_nil)

lemma accepts_Inr: "accepts now M inp \<longleftrightarrow> (\<exists>obj. model_validate now M inp = Inr obj)"
  by (cases "model_validate now M inp") (simp_all add: accepts_def)

lemma rejects_field:
  assumes "f \<in> set (model_fields M)" and "validate_field now f (inp (fname f)) = Inl e"
  shows "\<not> accepts now M inp"
proof
  assume "accepts now M inp"
  with assms(1) have "is_ok (validate_field now f (inp (fname f)))"
    by (simp add: accepts_iff)
  with assms(2) show False by simp
qed

lemma rejects_field_value:
  assumes "f \<in> set (model_fields M)" and "inp (fname f) = Some v"
    and "\<not> is_ok (validate_field now f (Some v))"
  shows "\<not> accepts now M inp"
proof
  assume "accepts now M inp"
  with assms(1) have "is_ok (validate_field now f (inp (fname f)))"
    by (simp add: accepts_iff)
  with assms(2,3) show False by simp
qed

lemma distinct_fname:
  assumes "distinct (map fname fs)" "f \<in> set fs" "g \<in> set fs" "fname g = fname f"
  shows "g = f"
  using assms by (meson distinct_map inj_on_eq_iff)

lemma accepts_update:
  assumes d: "distinct (map fname (model_fields M))"
    and f: "f \<in> set (model_fields M)"
    and a: "accepts now M inp"
  shows "accepts now M (inp(fname f := x)) \<longleftrightarrow> is_ok (validate_field now f x)"
proof
  assume "accepts now M (inp(fname f := x))"
  with f show "is_ok (validate_field now f x)" by (auto simp: accepts_iff)
next
  assume ok: "is_ok (validate_field now f x)"
  show "accepts now M (inp(fname f := x))"
    unfolding accepts_iff
  proof
    fix g assume g: "g \<in> set (model_fields M)"
    show "is_ok (validate_field now g ((inp(fname f := x)) (fname g)))"
    proof (cases "fname g = fname f")
      case True
      with d f g have "g = f" by (rule distinct_fname)
      with ok show ?thesis by simp
    next
      case False
      with a g show ?thesis by (simp add: accepts_iff)
    qed
  qed
qed

lemma values_of_lookup:
  assumes "distinct (map fname fs)" "f \<in> set fs" "g f = Inr v"
  shows "map_of (values_of (map (\<lambda>f. (fname f, g f)) fs)) (fname f) = Some v"
  using assms
proof (induction fs)
  case Nil then show ?case by simp
next
  case (Cons h fs)
  show ?case
  proof (cases "h = f")
    case True
    with Cons.prems show ?thesis by simp
  next
    case False
    with Cons.prems have ne: "fname h \<noteq> fname f" by auto
    from False Cons have "map_of (values_of (map (\<lambda>f. (fname f, g f)) fs)) (fname f) = Some v"
      by simp
    with ne show ?thesis by (cases "g h") simp_all
  qed
qed

lemma result_lookup:
  assumes "distinct (map fname (model_fields M))" "f \<in> set (model_fields M)"
    and "model_validate now M inp = Inr obj"
    and "validate_field now f (inp (fname f)) = Inr v"
  shows "map_of obj (fname f) = Some v"
proof -
  from assms(3) have "obj = values_of (map (\<lambda>f. (fname f, validate_field now f (inp (fname f)))) (model_fields M))"
    by (simp add: model_validate_def Let_def split: if_splits)
  with values_of_lookup[OF assms(1,2), of "\<lambda>f. validate_field now f (inp (fname f))" v] assms(4)
  show ?thesis by simp
qed

text \<open>Integer bounds, enumeration values and decimal digits, field by field.\<close>

lemma check_int_ok:
  "is_ok (check_int ks n) \<longleftrightarrow>
     (case kw_ge ks of Some lo \<Rightarrow> lo \<le> n | None \<Rightarrow> True) \<and>
     (case kw_le ks of Some hi \<Rightarrow> n \<le> hi | None \<Rightarrow> True)"
  by (auto simp: check_int_def split: option.splits)

lemma int_field_ok:
  assumes "annotation f = TInt \<or> annotation f = TOptional TInt"
  shows "is_ok (validate_field now f (Some (VInt n))) \<longleftrightarrow>
     (case kw_ge (kwargs f) of Some lo \<Rightarrow> lo \<le> n | None \<Rightarrow> True) \<and>
     (case kw_le (kwargs f) of Some hi \<Rightarrow> n \<le> hi | None \<Rightarrow> True)"
  using assms by (auto simp: validate_field_def check_int_ok)

lemma by_value_None: "by_value ms s = None \<longleftrightarrow> s \<notin> snd ` set ms"
  by (induction ms s rule: by_value.induct) simp_all

lemma check_enum_str_ok: "is_ok (check_enum E (VStr s)) \<longleftrightarrow> s \<in> snd ` set (members E)"
proof (cases "by_value (members E) s")
  case None
  then show ?thesis using by_value_None[of "members E" s] by (simp add: check_enum_def)
next
  case (Some name)
  then have "by_value (members E) s \<noteq> None" by simp
  then have "s \<in> snd ` set (members E)" by (simp only: by_value_None) simp
  with Some show ?thesis by (simp add: check_enum_def)
qed

lemma enum_field_ok:
  assumes "annotation f = TEnum E \<or> annotation f = TOptional (TEnum E)"
  shows "is_ok (validate_field now f (Some (VStr s))) \<longleftrightarrow> s \<in> snd ` set (members E)"
proof -
  have "validate_field now f (Some (VStr s)) = check_enum E (VStr s)"
    using assms by (auto simp: validate_field_def)
  then show ?thesis by (simp only: check_enum_str_ok)
qed


lemma enum_of_iff: "enum_of a = Some E \<longleftrightarrow> a = TEnum E \<or> a = TOptional (TEnum E)"
  by (induction a rule: enum_of.induct) auto


text \<open>What holds of a field with bounds, of a nullable field and of a required integer field,
  in any class with distinct field names.\<close>

lemma range_field:
  assumes d: "distinct (map fname (model_fields M))"
    and mem: "f \<in> set (model_fields M)"
    and ann: "annotation f = TInt \<or> annotation f = TOptional TInt"
    and ge: "kw_ge (kwargs f) = Some lo" and le: "kw_le (kwargs f) = Some hi"
  shows "(inp (fname f) = Some (VInt n) \<and> (n < lo \<or> hi < n) \<longrightarrow> \<not> accepts now M inp)
       \<and> (accepts now M inp \<longrightarrow>
            (accepts now M (inp(fname f \<mapsto> VInt n)) \<longleftrightarrow> lo \<le> n \<and> n \<le> hi))"
proof -
  have ok: "is_ok (validate_field now f (Some (VInt n))) \<longleftrightarrow> lo \<le> n \<and> n \<le> hi"
    using int_field_ok[OF ann, of now n] ge le by simp
  have "\<not> accepts now M inp" if "inp (fname f) = Some (VInt n)" "n < lo \<or> hi < n"
    using rejects_field_value[of f M inp "VInt n" now] mem that ok by auto
  moreover have "accepts now M (inp(fname f \<mapsto> VInt n)) \<longleftrightarrow> lo \<le> n \<and> n \<le> hi"
    if "accepts now M inp"
    using accepts_update[OF d mem that, of "Some (VInt n)"] ok by simp
  ultimately show ?thesis by blast
qed

lemma nullable_field:
  assumes d: "distinct (map fname (model_fields M))"
    and mem: "f \<in> set (model_fields M)"
    and ann: "annotation f = TOptional a"
    and dflt: "kw_default (kwargs f) = Some (Value VNone)"
  shows "(accepts now M inp \<longrightarrow>
            accepts now M (inp(fname f \<mapsto> VNone)) \<and> accepts now M (inp(fname f := None)))
       \<and> (model_validate now M inp = Inr obj \<and>
            (inp (fname f) = None \<or> inp (fname f) = Some VNone) \<longrightarrow>
            map_of obj (fname f) = Some VNone)"
proof -
  have v1: "validate_field now f None = Inr VNone"
    using dflt by (simp add: validate_field_def)
  have v2: "validate_field now f (Some VNone) = Inr VNone"
    using ann by (simp add: validate_field_def)
  have "accepts now M (inp(fname f \<mapsto> VNone)) \<and> accepts now M (inp(fname f := None))"
    if "accepts now M inp"
    using accepts_update[OF d mem that, of "Some VNone"]
      accepts_update[OF d mem that, of None] v1 v2 by simp
  moreover have "map_of obj (fname f) = Some VNone"
    if "model_validate now M inp = Inr obj" "inp (fname f) = None \<or> inp (fname f) = Some VNone"
  proof -
    from that(2) v1 v2 have "validate_field now f (inp (fname f)) = Inr VNone" by auto
    from result_lookup[OF d mem that(1) this] show ?thesis .
  qed
  ultimately show ?thesis by blast
qed

lemma required_field:
  assumes mem: "f \<in> set (model_fields M)"
    and ann: "annotation f = TInt"
    and dflt: "kw_default (kwargs f) = None"
    and inp: "inp (fname f) = None \<or> inp (fname f) = Some VNone"
  shows "\<not> accepts now M inp"
proof -
  from inp ann dflt have "\<not> is_ok (validate_field now f (inp (fname f)))"
    by (auto simp: validate_field_def)
  with mem show ?thesis by (auto simp: accepts_iff)
qed

section \<open>Properties of the constructor\<close>

text \<open>The constructor of a class that is not a table is the validator; the constructor of
  a table never fails, keeps what it is given, sets the defaults and leaves the rest
  unset.\<close>

lemma construct_plain: "\<not> table M \<Longrightarrow> construct now M inp = model_validate now M inp"
  by (simp add: construct_def)

lemma constructs_plain: "\<not> table M \<Longrightarrow> constructs now M inp = accepts now M inp"
  by (simp add: constructs_def accepts_def construct_def)

lemma construct_table:
  "table M \<Longrightarrow> construct now M inp = Inr (table_construct now (model_fields M) inp)"
  by (simp add: construct_def)

lemma constructs_table: "table M \<Longrightarrow> constructs now M inp"
  by (simp add: constructs_def construct_def)

lemma table_construct_keys:
  "k \<in> fst ` set (table_construct now fs inp) \<Longrightarrow>
     \<exists>f\<in>set fs. fname f = k \<and> (inp k \<noteq> None \<or> kw_default (kwargs f) \<noteq> None)"
proof (induction fs)
  case Nil
  then show ?case by simp
next
  case (Cons g fs)
  then show ?case
    by (cases "inp (fname g)"; cases "kw_default (kwargs g)")
       (auto split: dflt.splits factory.splits)
qed

lemma table_construct_given:
  assumes "distinct (map fname fs)" "f \<in> set fs" "inp (fname f) = Some v"
  shows "map_of (table_construct now fs inp) (fname f) = Some v"
  using assms
proof (induction fs)
  case Nil
  then show ?case by simp
next
  case (Cons g fs)
  show ?case
  proof (cases "g = f")
    case True
    with Cons.prems show ?thesis by simp
  next
    case False
    with Cons.prems have ne: "fname g \<noteq> fname f" by auto
    from False Cons have ih: "map_of (table_construct now fs inp) (fname f) = Some v" by simp
    with ne show ?thesis
      by (cases "inp (fname g)"; cases "kw_default (kwargs g)")
         (auto split: dflt.splits factory.splits)
  qed
qed

lemma table_construct_default:
  assumes "distinct (map fname fs)" "f \<in> set fs" "inp (fname f) = None"
    and "kw_default (kwargs f) = Some (Value v)"
  shows "map_of (table_construct now fs inp) (fname f) = Some v"
  using assms
proof (induction fs)
  case Nil
  then show ?case by simp
next
  case (Cons g fs)
  show ?case
  proof (cases "g = f")
    case True
    with Cons.prems show ?thesis by simp
  next
    case False
    with Cons.prems have ne: "fname g \<noteq> fname f" by auto
    from False Cons have ih: "map_of (table_construct now fs inp) (fname f) = Some v" by simp
    with ne show ?thesis
      by (cases "inp (fname g)"; cases "kw_default (kwargs g)")
         (auto split: dflt.splits factory.splits)
  qed
qed

lemma table_construct_unset:
  assumes d: "distinct (map fname fs)" and f: "f \<in> set fs" and i: "inp (fname f) = None"
    and k: "kw_default (kwargs f) = None"
  shows "map_of (table_construct now fs inp) (fname f) = None"
proof (rule ccontr)
  assume "map_of (table_construct now fs inp) (fname f) \<noteq> None"
  then have "fname f \<in> fst ` set (table_construct now fs inp)"
    by (simp add: map_of_eq_None_iff)
  from table_construct_keys[OF this] obtain g where g: "g \<in> set fs" "fname g = fname f"
    and s: "inp (fname f) \<noteq> None \<or> kw_default (kwargs g) \<noteq> None" by blast
  from d f g have "g = f" by (rule distinct_fname)
  with s i k show False by simp
qed

lemma table_keeps:
  assumes t: "table M" and d: "distinct (map fname (model_fields M))"
    and f: "f \<in> set (model_fields M)" and i: "inp (fname f) = Some v"
  shows "\<exists>obj. construct now M inp = Inr obj \<and> read_attr obj (fname f) = v"
  using construct_table[OF t, of now inp]
    table_construct_given[of "model_fields M" f inp v now] d f i
  by (simp add: read_attr_def)

section \<open>Decimals: digits, places and the number denoted\<close>
















section \<open>Properties of the catalog\<close>

lemmas catalog_defs = EIADataPoint_def STEOData_def PSMData_def WeeklyData_def
  SupplyDisposition_def Scenario_def ScenarioImpact_def PriceData_def PriceForecast_def
  SeasonalPattern_def HurricaneHistorical_def DashboardConfig_def ReportTemplate_def
  DataAlert_def EIADataPointCreate_def ScenarioCreate_def ScenarioUpdate_def
  DashboardConfigCreate_def SupplyDispositionSummary_def

lemmas enum_defs = DataSourceType_def ProductType_def DispositionType_def ScenarioType_def
  SeverityLevel_def

lemmas eval_defs = accepts_def model_validate_def validate_field_def
  check_int_def check_str_def check_enum_def check_decimal_def digits_info_def normalize_def
  prec_def Let_def
  DataSourceType_def ProductType_def DispositionType_def ScenarioType_def SeverityLevel_def

lemma catalog_distinct:
  "M \<in> set catalog \<Longrightarrow> distinct (map fname (model_fields M))"
  unfolding catalog_def by (auto simp: catalog_defs)

lemma SupplyDisposition_distinct: "distinct (map fname (model_fields SupplyDisposition))"
  by (simp add: SupplyDisposition_def)

lemma HurricaneHistorical_distinct: "distinct (map fname (model_fields HurricaneHistorical))"
  by (simp add: HurricaneHistorical_def)

lemma SeasonalPattern_distinct: "distinct (map fname (model_fields SeasonalPattern))"
  by (simp add: SeasonalPattern_def)

lemma Scenario_distinct: "distinct (map fname (model_fields Scenario))"
  by (simp add: Scenario_def)

lemma ScenarioCreate_distinct: "distinct (map fname (model_fields ScenarioCreate))"
  by (simp add: ScenarioCreate_def)

lemma PriceForecast_distinct: "distinct (map fname (model_fields PriceForecast))"
  by (simp add: PriceForecast_def)

lemma catalog_tables:
  "map (\<lambda>M. (cls_name M, table M)) catalog =
     [(''EIADataPoint'', True), (''STEOData'', True), (''PSMData'', True),
      (''WeeklyData'', True), (''SupplyDisposition'', True), (''Scenario'', True),
      (''ScenarioImpact'', True), (''PriceData'', True), (''PriceForecast'', True),
      (''SeasonalPattern'', True), (''HurricaneHistorical'', True),
      (''DashboardConfig'', True), (''ReportTemplate'', True), (''DataAlert'', True),
      (''EIADataPointCreate'', False), (''ScenarioCreate'', False),
      (''ScenarioUpdate'', False), (''DashboardConfigCreate'', False),
      (''SupplyDispositionSummary'', False)]"
  by (simp add: catalog_def catalog_defs)

lemma ScenarioImpact_distinct: "distinct (map fname (model_fields ScenarioImpact))"
  by (simp add: ScenarioImpact_def)

lemma catalog_enum_check:
  "list_all (\<lambda>M. list_all (\<lambda>f.
      case enum_of (annotation f) of
        None \<Rightarrow> True
      | Some E \<Rightarrow> fname f \<in> set [''data_source'', ''product_type'', ''disposition_type'',
                     ''scenario_type'', ''severity_level'']
                  \<and> map snd (members E) = glossary (fname f)) (model_fields M)) catalog"
  by (simp add: catalog_def catalog_defs enum_defs glossary_def)


lemma catalog_enum_fields:
  assumes "M \<in> set catalog" "f \<in> set (model_fields M)"
    and "annotation f = TEnum E \<or> annotation f = TOptional (TEnum E)"
  shows "fname f \<in> {''data_source'', ''product_type'', ''disposition_type'',
                     ''scenario_type'', ''severity_level''}
       \<and> snd ` set (members E) = set (glossary (fname f))"
proof -
  from assms(3) have e: "enum_of (annotation f) = Some E" by (simp add: enum_of_iff)
  from catalog_enum_check assms(1,2)
  have "case enum_of (annotation f) of
        None \<Rightarrow> True
      | Some E \<Rightarrow> fname f \<in> set [''data_source'', ''product_type'', ''disposition_type'',
                     ''scenario_type'', ''severity_level'']
                  \<and> map snd (members E) = glossary (fname f)"
    unfolding list_all_iff by blast
  with e have 1: "fname f \<in> set [''data_source'', ''product_type'', ''disposition_type'',
                     ''scenario_type'', ''severity_level'']"
    and 2: "map snd (members E) = glossary (fname f)" by simp_all
  from 2 have "set (map snd (members E)) = set (glossary (fname f))" by simp
  with 1 show ?thesis by simp
qed


lemma foreign_keys_catalog: "foreign_keys catalog =
    [(''SupplyDisposition'', ''data_point_id'', True),
     (''ScenarioImpact'', ''scenario_id'', False),
     (''PriceForecast'', ''scenario_id'', True)]"
  by (simp add: foreign_keys_def catalog_def catalog_defs nullable_def)

section \<open>The claims\<close>

text \<open>
  C1, as amended: the catalog has three foreign keys, and every one is nullable except
  \<^verbatim>\<open>ScenarioImpact.scenario_id\<close>, which has no default. \<^verbatim>\<open>ScenarioImpact.model_validate\<close> rejects
  an input without \<^verbatim>\<open>scenario_id\<close>; \<^verbatim>\<open>ScenarioImpact\<close> is a table, so its constructor does not
  validate, raises no error and leaves \<^verbatim>\<open>scenario_id\<close> unset, reading \<^verbatim>\<open>None\<close>.
  \<^verbatim>\<open>PriceForecast.scenario_id\<close> and \<^verbatim>\<open>SupplyDisposition.data_point_id\<close> may be left out:
  leaving the key out of an accepted input gives an accepted input, and the object built
  from an input without the key, by validation or by the constructor, has the key null.
\<close>

theorem foreign_keys_nullable_except_ScenarioImpact:
  "foreign_keys catalog =
     [(''SupplyDisposition'', ''data_point_id'', True),
      (''ScenarioImpact'', ''scenario_id'', False),
      (''PriceForecast'', ''scenario_id'', True)]
   \<and> (inp ''scenario_id'' = None \<longrightarrow> \<not> accepts now ScenarioImpact inp)
   \<and> (accepts now PriceForecast inp \<longrightarrow>
        accepts now PriceForecast (inp(''scenario_id'' := None)))
   \<and> (model_validate now PriceForecast inp = Inr obj \<and> inp ''scenario_id'' = None \<longrightarrow>
        map_of obj ''scenario_id'' = Some VNone)
   \<and> (accepts now SupplyDisposition inp \<longrightarrow>
        accepts now SupplyDisposition (inp(''data_point_id'' := None)))
   \<and> (model_validate now SupplyDisposition inp = Inr obj \<and> inp ''data_point_id'' = None \<longrightarrow>
        map_of obj ''data_point_id'' = Some VNone)
   \<and> constructs now ScenarioImpact inp
   \<and> (inp ''scenario_id'' = None \<longrightarrow>
        (\<exists>obj'. construct now ScenarioImpact inp = Inr obj' \<and>
           map_of obj' ''scenario_id'' = None \<and> read_attr obj' ''scenario_id'' = VNone))
   \<and> (inp ''scenario_id'' = None \<longrightarrow>
        (\<exists>obj'. construct now PriceForecast inp = Inr obj' \<and>
           map_of obj' ''scenario_id'' = Some VNone))
   \<and> (inp ''data_point_id'' = None \<longrightarrow>
        (\<exists>obj'. construct now SupplyDisposition inp = Inr obj' \<and>
           map_of obj' ''data_point_id'' = Some VNone))"
proof -
  let ?si = "Field ''scenario_id'' TInt [ForeignKey ''scenarios.id'']"
  let ?pf = "Field ''scenario_id'' (TOptional TInt) [Default VNone, ForeignKey ''scenarios.id'']"
  let ?sd = "Field ''data_point_id'' (TOptional TInt)
               [Default VNone, ForeignKey ''eia_data_points.id'']"
  have si: "?si \<in> set (model_fields ScenarioImpact)" by (simp add: ScenarioImpact_def)
  have pf: "?pf \<in> set (model_fields PriceForecast)" by (simp add: PriceForecast_def)
  have sd: "?sd \<in> set (model_fields SupplyDisposition)" by (simp add: SupplyDisposition_def)
  have tb: "table ScenarioImpact" "table PriceForecast" "table SupplyDisposition"
    by (simp_all add: ScenarioImpact_def PriceForecast_def SupplyDisposition_def)
  have 1: "\<not> accepts now ScenarioImpact inp" if "inp ''scenario_id'' = None"
    using required_field[OF si, of inp now] that by simp
  have 2: "\<exists>obj'. construct now ScenarioImpact inp = Inr obj' \<and>
           map_of obj' ''scenario_id'' = None \<and> read_attr obj' ''scenario_id'' = VNone"
    if "inp ''scenario_id'' = None"
    using construct_table[OF tb(1), of now inp]
      table_construct_unset[of "model_fields ScenarioImpact" ?si inp now]
      ScenarioImpact_distinct si that
    by (simp add: read_attr_def)
  have 3: "\<exists>obj'. construct now PriceForecast inp = Inr obj' \<and>
           map_of obj' ''scenario_id'' = Some VNone"
    if "inp ''scenario_id'' = None"
    using construct_table[OF tb(2), of now inp]
      table_construct_default[of "model_fields PriceForecast" ?pf inp VNone now]
      PriceForecast_distinct pf that
    by simp
  have 4: "\<exists>obj'. construct now SupplyDisposition inp = Inr obj' \<and>
           map_of obj' ''data_point_id'' = Some VNone"
    if "inp ''data_point_id'' = None"
    using construct_table[OF tb(3), of now inp]
      table_construct_default[of "model_fields SupplyDisposition" ?sd inp VNone now]
      SupplyDisposition_distinct sd that
    by simp
  from 1 2 3 4 foreign_keys_catalog constructs_table[OF tb(1), of now inp]
    nullable_field[OF PriceForecast_distinct pf, of TInt now inp obj]
    nullable_field[OF SupplyDisposition_distinct sd, of TInt now inp obj]
  show ?thesis by simp
qed

theorem foreign_keys_nullable_except_ScenarioImpact_witness:
  "\<not> accepts (DateTime 2025 1 1 0 0 0) ScenarioImpact
       (map_of [(''product_type'', VStr ''CRUDE_OIL''), (''disposition_type'', VStr ''PRODUCTION''),
                (''impact_date'', VDate (Date 2025 9 1)),
                (''baseline_value'', VDecimal (Decimal False [1, 0, 0] 0)),
                (''scenario_value'', VDecimal (Decimal False [8, 0] 0)),
                (''impact_absolute'', VDecimal (Decimal True [2, 0] 0)),
                (''impact_percentage'', VDecimal (Decimal True [2, 0] 0)),
                (''unit'', VStr ''kb/d'')])
   \<and> accepts (DateTime 2025 1 1 0 0 0) PriceForecast
       (map_of [(''scenario_id'', VInt 7),
           (''product_type'', VStr ''GASOLINE''), (''forecast_date'', VDate (Date 2025 9 1)),
           (''forecast_price'', VDecimal (Decimal False [3, 2, 5] (- 2))),
           (''baseline_price'', VDecimal (Decimal False [3, 0, 0] (- 2))),
           (''price_impact'', VDecimal (Decimal False [2, 5] (- 2))),
           (''price_impact_pct'', VDecimal (Decimal False [8, 3, 3] (- 2))),
           (''price_type'', VStr ''spot''), (''location'', VStr ''NYH''),
           (''unit'', VStr ''USD/gal'')])
   \<and> accepts (DateTime 2025 1 1 0 0 0) PriceForecast
       ((map_of [(''scenario_id'', VInt 7),
           (''product_type'', VStr ''GASOLINE''), (''forecast_date'', VDate (Date 2025 9 1)),
           (''forecast_price'', VDecimal (Decimal False [3, 2, 5] (- 2))),
           (''baseline_price'', VDecimal (Decimal False [3, 0, 0] (- 2))),
           (''price_impact'', VDecimal (Decimal False [2, 5] (- 2))),
           (''price_impact_pct'', VDecimal (Decimal False [8, 3, 3] (- 2))),
           (''price_type'', VStr ''spot''), (''location'', VStr ''NYH''),
           (''unit'', VStr ''USD/gal'')])
        (''scenario_id'' := None))
   \<and> (case model_validate (DateTime 2025 1 1 0 0 0) PriceForecast
          (map_of [(''product_type'', VStr ''GASOLINE''), (''forecast_date'', VDate (Date 2025 9 1)),
           (''forecast_price'', VDecimal (Decimal False [3, 2, 5] (- 2))),
           (''baseline_price'', VDecimal (Decimal False [3, 0, 0] (- 2))),
           (''price_impact'', VDecimal (Decimal False [2, 5] (- 2))),
           (''price_impact_pct'', VDecimal (Decimal False [8, 3, 3] (- 2))),
           (''price_type'', VStr ''spot''), (''location'', VStr ''NYH''),
           (''unit'', VStr ''USD/gal'')])
       of Inr obj \<Rightarrow> map_of obj ''scenario_id'' | Inl errs \<Rightarrow> None) = Some VNone
   \<and> accepts (DateTime 2025 1 1 0 0 0) SupplyDisposition
       ((map_of [(''product_type'', VStr ''GASOLINE''), (''period_date'', VDate (Date 2025 1 1)),
                (''data_point_id'', VInt 12), (''unit'', VStr ''kb/d'')])
        (''data_point_id'' := None))
   \<and> (case model_validate (DateTime 2025 1 1 0 0 0) SupplyDisposition
          (map_of [(''product_type'', VStr ''GASOLINE''), (''period_date'', VDate (Date 2025 1 1)),
                (''unit'', VStr ''kb/d'')])
       of Inr obj \<Rightarrow> map_of obj ''data_point_id'' | Inl errs \<Rightarrow> None) = Some VNone
   \<and> constructs (DateTime 2025 1 1 0 0 0) ScenarioImpact
       (map_of [(''product_type'', VStr ''CRUDE_OIL''), (''disposition_type'', VStr ''PRODUCTION''),
                (''impact_date'', VDate (Date 2025 9 1)),
                (''baseline_value'', VDecimal (Decimal False [1, 0, 0] 0)),
                (''scenario_value'', VDecimal (Decimal False [8, 0] 0)),
                (''impact_absolute'', VDecimal (Decimal True [2, 0] 0)),
                (''impact_percentage'', VDecimal (Decimal True [2, 0] 0)),
                (''unit'', VStr ''kb/d'')])
   \<and> (case construct (DateTime 2025 1 1 0 0 0) ScenarioImpact
          (map_of [(''product_type'', VStr ''CRUDE_OIL''), (''disposition_type'', VStr ''PRODUCTION''),
                (''impact_date'', VDate (Date 2025 9 1)),
                (''baseline_value'', VDecimal (Decimal False [1, 0, 0] 0)),
                (''scenario_value'', VDecimal (Decimal False [8, 0] 0)),
                (''impact_absolute'', VDecimal (Decimal True [2, 0] 0)),
                (''impact_percentage'', VDecimal (Decimal True [2, 0] 0)),
                (''unit'', VStr ''kb/d'')])
       of Inr obj \<Rightarrow> read_attr obj ''scenario_id'' | Inl errs \<Rightarrow> VStr ''error'') = VNone
   \<and> (case construct (DateTime 2025 1 1 0 0 0) SupplyDisposition
          (map_of [(''product_type'', VStr ''GASOLINE''), (''period_date'', VDate (Date 2025 1 1)),
                (''unit'', VStr ''kb/d'')])
       of Inr obj \<Rightarrow> map_of obj ''data_point_id'' | Inl errs \<Rightarrow> None) = Some VNone"
proof -
  let ?now = "DateTime 2025 1 1 0 0 0"
  let ?si = "map_of [(''product_type'', VStr ''CRUDE_OIL''), (''disposition_type'', VStr ''PRODUCTION''),
                (''impact_date'', VDate (Date 2025 9 1)),
                (''baseline_value'', VDecimal (Decimal False [1, 0, 0] 0)),
                (''scenario_value'', VDecimal (Decimal False [8, 0] 0)),
                (''impact_absolute'', VDecimal (Decimal True [2, 0] 0)),
                (''impact_percentage'', VDecimal (Decimal True [2, 0] 0)),
                (''unit'', VStr ''kb/d'')]"
  let ?pf = "map_of [(''scenario_id'', VInt 7),
           (''product_type'', VStr ''GASOLINE''), (''forecast_date'', VDate (Date 2025 9 1)),
           (''forecast_price'', VDecimal (Decimal False [3, 2, 5] (- 2))),
           (''baseline_price'', VDecimal (Decimal False [3, 0, 0] (- 2))),
           (''price_impact'', VDecimal (Decimal False [2, 5] (- 2))),
           (''price_impact_pct'', VDecimal (Decimal False [8, 3, 3] (- 2))),
           (''price_type'', VStr ''spot''), (''location'', VStr ''NYH''),
           (''unit'', VStr ''USD/gal'')]"
  let ?pfn = "map_of [(''product_type'', VStr ''GASOLINE''), (''forecast_date'', VDate (Date 2025 9 1)),
           (''forecast_price'', VDecimal (Decimal False [3, 2, 5] (- 2))),
           (''baseline_price'', VDecimal (Decimal False [3, 0, 0] (- 2))),
           (''price_impact'', VDecimal (Decimal False [2, 5] (- 2))),
           (''price_impact_pct'', VDecimal (Decimal False [8, 3, 3] (- 2))),
           (''price_type'', VStr ''spot''), (''location'', VStr ''NYH''),
           (''unit'', VStr ''USD/gal'')]"
  let ?sd = "map_of [(''product_type'', VStr ''GASOLINE''), (''period_date'', VDate (Date 2025 1 1)),
                (''data_point_id'', VInt 12), (''unit'', VStr ''kb/d'')]"
  let ?sdn = "map_of [(''product_type'', VStr ''GASOLINE''), (''period_date'', VDate (Date 2025 1 1)),
                (''unit'', VStr ''kb/d'')]"
  have si: "?si ''scenario_id'' = None" by simp
  have pf: "accepts ?now PriceForecast ?pf" by (simp add: eval_defs PriceForecast_def)
  have pf0: "accepts ?now PriceForecast ?pfn" by (simp add: eval_defs PriceForecast_def)
  have sd: "accepts ?now SupplyDisposition ?sd" by (simp add: eval_defs SupplyDisposition_def)
  have sd0: "accepts ?now SupplyDisposition ?sdn" by (simp add: eval_defs SupplyDisposition_def)
  from pf0 obtain po where po: "model_validate ?now PriceForecast ?pfn = Inr po"
    by (auto simp: accepts_Inr)
  from sd0 obtain so where so: "model_validate ?now SupplyDisposition ?sdn = Inr so"
    by (auto simp: accepts_Inr)
  have n: "?pfn ''scenario_id'' = None" "?sdn ''data_point_id'' = None" by simp_all
  from foreign_keys_nullable_except_ScenarioImpact[of ?si ?now] si
  have 1: "\<not> accepts ?now ScenarioImpact ?si" by blast
  from foreign_keys_nullable_except_ScenarioImpact[of ?pf ?now] pf
  have 2: "accepts ?now PriceForecast (?pf(''scenario_id'' := None))" by blast
  from foreign_keys_nullable_except_ScenarioImpact[of ?pfn ?now po] po n
  have 3: "map_of po ''scenario_id'' = Some VNone" by blast
  from foreign_keys_nullable_except_ScenarioImpact[of ?sd ?now] sd
  have 4: "accepts ?now SupplyDisposition (?sd(''data_point_id'' := None))" by blast
  from foreign_keys_nullable_except_ScenarioImpact[of ?sdn ?now so] so n
  have 5: "map_of so ''data_point_id'' = Some VNone" by blast
  from po 3 have pn: "(case model_validate ?now PriceForecast ?pfn
       of Inr obj \<Rightarrow> map_of obj ''scenario_id'' | Inl errs \<Rightarrow> None) = Some VNone"
    by (simp only: sum.case)
  from so 5 have sn: "(case model_validate ?now SupplyDisposition ?sdn
       of Inr obj \<Rightarrow> map_of obj ''data_point_id'' | Inl errs \<Rightarrow> None) = Some VNone"
    by (simp only: sum.case)
  from foreign_keys_nullable_except_ScenarioImpact[of ?si ?now]
  have 6: "constructs ?now ScenarioImpact ?si" by blast
  from foreign_keys_nullable_except_ScenarioImpact[of ?si ?now] si
  obtain co where "construct ?now ScenarioImpact ?si = Inr co"
    "read_attr co ''scenario_id'' = VNone" by blast
  then have 7: "(case construct ?now ScenarioImpact ?si
       of Inr obj \<Rightarrow> read_attr obj ''scenario_id'' | Inl errs \<Rightarrow> VStr ''error'') = VNone"
    by (simp only: sum.case)
  from foreign_keys_nullable_except_ScenarioImpact[of ?sdn ?now] n
  obtain cs where "construct ?now SupplyDisposition ?sdn = Inr cs"
    "map_of cs ''data_point_id'' = Some VNone" by blast
  then have 8: "(case construct ?now SupplyDisposition ?sdn
       of Inr obj \<Rightarrow> map_of obj ''data_point_id'' | Inl errs \<Rightarrow> None) = Some VNone"
    by (simp only: sum.case)
  from 1 pf 2 pn 4 sn 6 7 8 show ?thesis by blast
qed

text \<open>
  C1, as stated, says that \<^verbatim>\<open>PriceForecast.scenario_id\<close> is required. It is declared
  \<^verbatim>\<open>Optional[int]\<close> with default \<^verbatim>\<open>None\<close>: this input has no \<^verbatim>\<open>scenario_id\<close> and validates,
  with \<^verbatim>\<open>scenario_id\<close> null in the object.
\<close>

theorem PriceForecast_scenario_id_not_required:
  "map_of [(''product_type'', VStr ''GASOLINE''), (''forecast_date'', VDate (Date 2025 9 1)),
           (''forecast_price'', VDecimal (Decimal False [3, 2, 5] (- 2))),
           (''baseline_price'', VDecimal (Decimal False [3, 0, 0] (- 2))),
           (''price_impact'', VDecimal (Decimal False [2, 5] (- 2))),
           (''price_impact_pct'', VDecimal (Decimal False [8, 3, 3] (- 2))),
           (''price_type'', VStr ''spot''), (''location'', VStr ''NYH''),
           (''unit'', VStr ''USD/gal'')] ''scenario_id'' = None
   \<and> model_validate (DateTime 2025 1 1 0 0 0) PriceForecast
       (map_of [(''product_type'', VStr ''GASOLINE''), (''forecast_date'', VDate (Date 2025 9 1)),
           (''forecast_price'', VDecimal (Decimal False [3, 2, 5] (- 2))),
           (''baseline_price'', VDecimal (Decimal False [3, 0, 0] (- 2))),
           (''price_impact'', VDecimal (Decimal False [2, 5] (- 2))),
           (''price_impact_pct'', VDecimal (Decimal False [8, 3, 3] (- 2))),
           (''price_type'', VStr ''spot''), (''location'', VStr ''NYH''),
           (''unit'', VStr ''USD/gal'')])
     = Inr [(''id'', VNone), (''scenario_id'', VNone),
            (''product_type'', VEnum ''ProductType'' ''GASOLINE''),
            (''forecast_date'', VDate (Date 2025 9 1)),
            (''forecast_price'', VDecimal (Decimal False [3, 2, 5] (- 2))),
            (''baseline_price'', VDecimal (Decimal False [3, 0, 0] (- 2))),
            (''price_impact'', VDecimal (Decimal False [2, 5] (- 2))),
            (''price_impact_pct'', VDecimal (Decimal False [8, 3, 3] (- 2))),
            (''confidence_level'', VNone),
            (''price_type'', VStr ''spot''), (''location'', VStr ''NYH''),
            (''unit'', VStr ''USD/gal''),
            (''created_at'', VDateTime (DateTime 2025 1 1 0 0 0))]"
  by (simp add: eval_defs PriceForecast_def)

text \<open>
  C2: \<^verbatim>\<open>ScenarioImpact\<close> does not relate its value fields. Some accepted input has an
  \<^verbatim>\<open>impact_absolute\<close> that is not \<^verbatim>\<open>scenario_value - baseline_value\<close> (here baseline 100.00,
  scenario 80.00 and impact 5.00).
\<close>

theorem ScenarioImpact_accepts_inconsistent_impact:
  "\<exists>inp b s a. inp ''baseline_value'' = Some (VDecimal b)
       \<and> inp ''scenario_value'' = Some (VDecimal s)
       \<and> inp ''impact_absolute'' = Some (VDecimal a)
       \<and> dec_value a \<noteq> dec_value s - dec_value b
       \<and> accepts now ScenarioImpact inp"
proof -
  let ?b = "Decimal False [1, 0, 0, 0, 0] (- 2)"
  let ?s = "Decimal False [8, 0, 0, 0] (- 2)"
  let ?a = "Decimal False [5, 0, 0] (- 2)"
  let ?inp = "map_of [(''scenario_id'', VInt 1), (''product_type'', VStr ''CRUDE_OIL''),
                (''disposition_type'', VStr ''PRODUCTION''),
                (''impact_date'', VDate (Date 2025 9 1)),
                (''baseline_value'', VDecimal ?b), (''scenario_value'', VDecimal ?s),
                (''impact_absolute'', VDecimal ?a),
                (''impact_percentage'', VDecimal (Decimal True [2, 0, 0, 0] (- 2))),
                (''unit'', VStr ''kb/d'')]"
  have "?inp ''baseline_value'' = Some (VDecimal ?b)"
    and "?inp ''scenario_value'' = Some (VDecimal ?s)"
    and "?inp ''impact_absolute'' = Some (VDecimal ?a)"
    by simp_all
  moreover have "dec_value ?a \<noteq> dec_value ?s - dec_value ?b"
    by (simp add: dec_value_def coefficient_def)
  moreover have "accepts now ScenarioImpact ?inp"
    by (simp add: eval_defs ScenarioImpact_def)
  ultimately show ?thesis by blast
qed

text \<open>
  C3: an end date strictly before the start date is not rejected. Some input with
  \<^verbatim>\<open>end_date < start_date\<close> is accepted both as a \<^verbatim>\<open>Scenario\<close> and as a
  \<^verbatim>\<open>ScenarioCreate\<close>.
\<close>

theorem Scenario_accepts_end_before_start:
  "\<exists>inp s e. inp ''start_date'' = Some (VDate s) \<and> inp ''end_date'' = Some (VDate e)
       \<and> date_less e s
       \<and> accepts now Scenario inp \<and> accepts now ScenarioCreate inp"
proof -
  let ?inp = "map_of [(''name'', VStr ''Gulf landfall''), (''description'', VStr ''Reversed''),
                (''scenario_type'', VStr ''HURRICANE''), (''severity_level'', VStr ''HIGH''),
                (''start_date'', VDate (Date 2025 9 1)), (''end_date'', VDate (Date 2025 8 1))]"
  have "?inp ''start_date'' = Some (VDate (Date 2025 9 1))"
    and "?inp ''end_date'' = Some (VDate (Date 2025 8 1))"
    and "date_less (Date 2025 8 1) (Date 2025 9 1)"
    by simp_all
  moreover have "accepts now Scenario ?inp"
    by (simp add: eval_defs Scenario_def)
  moreover have "accepts now ScenarioCreate ?inp"
    by (simp add: eval_defs ScenarioCreate_def)
  ultimately show ?thesis by blast
qed

text \<open>
  C4, as amended: every enumeration-typed field of every class of the catalog is one of
  \<^verbatim>\<open>data_source\<close>, \<^verbatim>\<open>product_type\<close>, \<^verbatim>\<open>disposition_type\<close>, \<^verbatim>\<open>scenario_type\<close> and
  \<^verbatim>\<open>severity_level\<close>, and where the input is validated, by \<^verbatim>\<open>model_validate\<close> of any class
  and by the constructor of a class that is not a table, it takes a string exactly when
  the string is one of the values the Glossary lists for it: an input with another string
  in the field is rejected, and putting a string into the field of an accepted input
  gives an accepted input if and only if the string is in the Glossary's list. The
  constructor of a table does not validate: it raises no error and keeps the value it is
  given.
\<close>

theorem enum_fields_accept_exactly_glossary:
  assumes M: "M \<in> set catalog" and f: "f \<in> set (model_fields M)"
    and ann: "annotation f = TEnum E \<or> annotation f = TOptional (TEnum E)"
  shows "fname f \<in> {''data_source'', ''product_type'', ''disposition_type'',
                     ''scenario_type'', ''severity_level''}
       \<and> (inp (fname f) = Some (VStr s) \<and> s \<notin> set (glossary (fname f)) \<longrightarrow>
            \<not> accepts now M inp)
       \<and> (accepts now M inp \<longrightarrow>
            (accepts now M (inp(fname f \<mapsto> VStr s)) \<longleftrightarrow> s \<in> set (glossary (fname f))))
       \<and> (\<not> table M \<longrightarrow> construct now M inp = model_validate now M inp)
       \<and> (table M \<longrightarrow> constructs now M inp \<and>
            (inp (fname f) = Some v \<longrightarrow>
               (\<exists>obj. construct now M inp = Inr obj \<and> read_attr obj (fname f) = v)))"
proof -
  from catalog_enum_fields[OF M f ann]
  have name: "fname f \<in> {''data_source'', ''product_type'', ''disposition_type'',
                     ''scenario_type'', ''severity_level''}"
    and vals: "snd ` set (members E) = set (glossary (fname f))" by simp_all
  have ok: "is_ok (validate_field now f (Some (VStr s))) \<longleftrightarrow> s \<in> set (glossary (fname f))"
    using enum_field_ok[OF ann, of now s] vals by simp
  have "\<not> accepts now M inp"
    if "inp (fname f) = Some (VStr s)" "s \<notin> set (glossary (fname f))"
    using rejects_field_value[of f M inp "VStr s" now] f that ok by simp
  moreover have "accepts now M (inp(fname f \<mapsto> VStr s)) \<longleftrightarrow> s \<in> set (glossary (fname f))"
    if "accepts now M inp"
    using accepts_update[OF catalog_distinct[OF M] f that, of "Some (VStr s)"] ok by simp
  moreover have "\<exists>obj. construct now M inp = Inr obj \<and> read_attr obj (fname f) = v"
    if "table M" "inp (fname f) = Some v"
    using table_keeps[of M f inp v now] that catalog_distinct[OF M] f by simp
  ultimately show ?thesis
    using name construct_plain[of M now inp] constructs_table[of M now inp] by blast
qed

theorem enum_fields_accept_exactly_glossary_witness:
  "\<not> accepts (DateTime 2025 1 1 0 0 0) EIADataPoint
       (map_of [(''series_id'', VStr ''PET.WCRFPUS2.W''), (''data_source'', VStr ''steo''),
                (''product_type'', VStr ''CRUDE_OIL''), (''disposition_type'', VStr ''PRODUCTION''),
                (''period_date'', VDate (Date 2025 1 3)),
                (''value'', VDecimal (Decimal False [1, 3, 4, 5, 0] (- 1))),
                (''unit'', VStr ''kb/d'')])
   \<and> accepts (DateTime 2025 1 1 0 0 0) EIADataPoint
       (map_of [(''series_id'', VStr ''PET.WCRFPUS2.W''), (''data_source'', VStr ''STEO''),
                (''product_type'', VStr ''CRUDE_OIL''), (''disposition_type'', VStr ''PRODUCTION''),
                (''period_date'', VDate (Date 2025 1 3)),
                (''value'', VDecimal (Decimal False [1, 3, 4, 5, 0] (- 1))),
                (''unit'', VStr ''kb/d'')])
   \<and> accepts (DateTime 2025 1 1 0 0 0) EIADataPoint
       ((map_of [(''series_id'', VStr ''PET.WCRFPUS2.W''), (''data_source'', VStr ''STEO''),
                (''product_type'', VStr ''CRUDE_OIL''), (''disposition_type'', VStr ''PRODUCTION''),
                (''period_date'', VDate (Date 2025 1 3)),
                (''value'', VDecimal (Decimal False [1, 3, 4, 5, 0] (- 1))),
                (''unit'', VStr ''kb/d'')])
        (''data_source'' \<mapsto> VStr ''WEEKLY''))
   \<and> \<not> accepts (DateTime 2025 1 1 0 0 0) EIADataPoint
       ((map_of [(''series_id'', VStr ''PET.WCRFPUS2.W''), (''data_source'', VStr ''STEO''),
                (''product_type'', VStr ''CRUDE_OIL''), (''disposition_type'', VStr ''PRODUCTION''),
                (''period_date'', VDate (Date 2025 1 3)),
                (''value'', VDecimal (Decimal False [1, 3, 4, 5, 0] (- 1))),
                (''unit'', VStr ''kb/d'')])
        (''data_source'' \<mapsto> VStr ''Weekly''))
   \<and> \<not> constructs (DateTime 2025 1 1 0 0 0) EIADataPointCreate
       (map_of [(''series_id'', VStr ''PET.WCRFPUS2.W''), (''data_source'', VStr ''steo''),
                (''product_type'', VStr ''CRUDE_OIL''), (''disposition_type'', VStr ''PRODUCTION''),
                (''period_date'', VDate (Date 2025 1 3)),
                (''value'', VDecimal (Decimal False [1, 3, 4, 5, 0] (- 1))),
                (''unit'', VStr ''kb/d'')])
   \<and> (case construct (DateTime 2025 1 1 0 0 0) EIADataPoint
          (map_of [(''series_id'', VStr ''PET.WCRFPUS2.W''), (''data_source'', VStr ''steo''),
                (''product_type'', VStr ''CRUDE_OIL''), (''disposition_type'', VStr ''PRODUCTION''),
                (''period_date'', VDate (Date 2025 1 3)),
                (''value'', VDecimal (Decimal False [1, 3, 4, 5, 0] (- 1))),
                (''unit'', VStr ''kb/d'')])
        of Inr obj \<Rightarrow> read_attr obj ''data_source'' | Inl errs \<Rightarrow> VNone) = VStr ''steo''"
proof -
  let ?now = "DateTime 2025 1 1 0 0 0"
  let ?f = "Field ''data_source'' (TEnum DataSourceType) []"
  let ?base = "map_of [(''series_id'', VStr ''PET.WCRFPUS2.W''), (''data_source'', VStr ''STEO''),
                (''product_type'', VStr ''CRUDE_OIL''), (''disposition_type'', VStr ''PRODUCTION''),
                (''period_date'', VDate (Date 2025 1 3)),
                (''value'', VDecimal (Decimal False [1, 3, 4, 5, 0] (- 1))),
                (''unit'', VStr ''kb/d'')]"
  let ?bad = "map_of [(''series_id'', VStr ''PET.WCRFPUS2.W''), (''data_source'', VStr ''steo''),
                (''product_type'', VStr ''CRUDE_OIL''), (''disposition_type'', VStr ''PRODUCTION''),
                (''period_date'', VDate (Date 2025 1 3)),
                (''value'', VDecimal (Decimal False [1, 3, 4, 5, 0] (- 1))),
                (''unit'', VStr ''kb/d'')]"
  have M: "EIADataPoint \<in> set catalog" by (simp add: catalog_def)
  have f: "?f \<in> set (model_fields EIADataPoint)" by (simp add: EIADataPoint_def)
  have ann: "annotation ?f = TEnum DataSourceType
      \<or> annotation ?f = TOptional (TEnum DataSourceType)" by simp
  have g: "''steo'' \<notin> set (glossary ''data_source'')"
    "''WEEKLY'' \<in> set (glossary ''data_source'')"
    "''Weekly'' \<notin> set (glossary ''data_source'')"
    by (simp_all add: glossary_def)
  have base: "accepts ?now EIADataPoint ?base"
    by (simp add: eval_defs EIADataPoint_def)
  have bad: "?bad ''data_source'' = Some (VStr ''steo'')" by simp
  from enum_fields_accept_exactly_glossary[OF M f ann, of ?bad "''steo''" ?now] bad g(1)
  have 1: "\<not> accepts ?now EIADataPoint ?bad" by simp
  from enum_fields_accept_exactly_glossary[OF M f ann, of ?base "''WEEKLY''" ?now] base g(2)
  have 2: "accepts ?now EIADataPoint (?base(''data_source'' \<mapsto> VStr ''WEEKLY''))" by simp
  from enum_fields_accept_exactly_glossary[OF M f ann, of ?base "''Weekly''" ?now] base g(3)
  have 3: "\<not> accepts ?now EIADataPoint (?base(''data_source'' \<mapsto> VStr ''Weekly''))" by simp
  have Mc: "EIADataPointCreate \<in> set catalog" by (simp add: catalog_def)
  have fc: "?f \<in> set (model_fields EIADataPointCreate)" by (simp add: EIADataPointCreate_def)
  have tb: "table EIADataPoint" "\<not> table EIADataPointCreate"
    by (simp_all add: EIADataPoint_def EIADataPointCreate_def)
  from enum_fields_accept_exactly_glossary[OF Mc fc ann, of ?bad "''steo''" ?now] bad g(1) tb(2)
  have "\<not> accepts ?now EIADataPointCreate ?bad"
    and "construct ?now EIADataPointCreate ?bad = model_validate ?now EIADataPointCreate ?bad"
    by simp_all
  then have 4: "\<not> constructs ?now EIADataPointCreate ?bad"
    by (simp add: constructs_def accepts_def)
  from enum_fields_accept_exactly_glossary[OF M f ann, of ?bad _ ?now "VStr ''steo''"] bad tb(1)
  obtain cobj where "construct ?now EIADataPoint ?bad = Inr cobj"
    "read_attr cobj ''data_source'' = VStr ''steo''" by auto
  then have 5: "(case construct ?now EIADataPoint ?bad
        of Inr obj \<Rightarrow> read_attr obj ''data_source'' | Inl errs \<Rightarrow> VNone) = VStr ''steo''"
    by (simp only: sum.case)
  from 1 base 2 3 4 5 show ?thesis by blast
qed

text \<open>
  C4, as stated, says that construction rejects any string that is not a Glossary value.
  The constructor of the table \<^verbatim>\<open>EIADataPoint\<close> takes \<^verbatim>\<open>data_source = "steo"\<close> and keeps it.
\<close>

theorem EIADataPoint_constructor_keeps_unknown_data_source:
  "construct (DateTime 2025 1 1 0 0 0) EIADataPoint
     (map_of [(''series_id'', VStr ''PET.WCRFPUS2.W''), (''data_source'', VStr ''steo''),
              (''product_type'', VStr ''CRUDE_OIL''), (''disposition_type'', VStr ''PRODUCTION''),
              (''period_date'', VDate (Date 2025 1 3)),
              (''value'', VDecimal (Decimal False [1, 3, 4, 5, 0] (- 1))),
              (''unit'', VStr ''kb/d'')])
   = Inr [(''id'', VNone), (''series_id'', VStr ''PET.WCRFPUS2.W''),
          (''data_source'', VStr ''steo''), (''product_type'', VStr ''CRUDE_OIL''),
          (''disposition_type'', VStr ''PRODUCTION''), (''period_date'', VDate (Date 2025 1 3)),
          (''value'', VDecimal (Decimal False [1, 3, 4, 5, 0] (- 1))),
          (''unit'', VStr ''kb/d''), (''region'', VNone),
          (''created_at'', VDateTime (DateTime 2025 1 1 0 0 0)),
          (''updated_at'', VDateTime (DateTime 2025 1 1 0 0 0))]"
  by (simp add: construct_def EIADataPoint_def)




text \<open>
  C6, as amended: \<^verbatim>\<open>hurricane_category\<close> of \<^verbatim>\<open>Scenario\<close> and of \<^verbatim>\<open>ScenarioCreate\<close>, and
  \<^verbatim>\<open>category\<close> of \<^verbatim>\<open>HurricaneHistorical\<close>, take an integer exactly when it is between 1 and 5
  where the input is validated, by \<^verbatim>\<open>model_validate\<close> of the three classes and by the
  constructor of \<^verbatim>\<open>ScenarioCreate\<close>, which is not a table: an input with an integer outside
  the range is rejected, and putting an integer into the field of an accepted input
  gives an accepted input if and only if it is in the range. \<^verbatim>\<open>hurricane_category\<close> may
  also be null or left out, and is then null in the object; \<^verbatim>\<open>category\<close> may not.
  \<^verbatim>\<open>Scenario\<close> and \<^verbatim>\<open>HurricaneHistorical\<close> are tables, so their constructors do not
  validate: they raise no error and keep the value they are given.
\<close>

theorem hurricane_category_range:
  assumes mc: "(M, c) \<in> {(Scenario, ''hurricane_category''),
                        (ScenarioCreate, ''hurricane_category''),
                        (HurricaneHistorical, ''category'')}"
  shows "(inp c = Some (VInt n) \<and> (n < 1 \<or> 5 < n) \<longrightarrow> \<not> accepts now M inp)
       \<and> (accepts now M inp \<longrightarrow>
            (accepts now M (inp(c \<mapsto> VInt n)) \<longleftrightarrow> 1 \<le> n \<and> n \<le> 5))
       \<and> (c = ''hurricane_category'' \<and> accepts now M inp \<longrightarrow>
            accepts now M (inp(c \<mapsto> VNone)) \<and> accepts now M (inp(c := None)))
       \<and> (c = ''hurricane_category'' \<and> model_validate now M inp = Inr obj \<and>
            (inp c = None \<or> inp c = Some VNone) \<longrightarrow> map_of obj c = Some VNone)
       \<and> (c = ''category'' \<and> (inp c = None \<or> inp c = Some VNone) \<longrightarrow>
            \<not> accepts now M inp)
       \<and> (M = ScenarioCreate \<longrightarrow> construct now M inp = model_validate now M inp)
       \<and> (M \<noteq> ScenarioCreate \<longrightarrow> constructs now M inp \<and>
            (inp c = Some v \<longrightarrow>
               (\<exists>obj'. construct now M inp = Inr obj' \<and> read_attr obj' c = v)))"
proof -
  have ne: "Scenario \<noteq> ScenarioCreate" "HurricaneHistorical \<noteq> ScenarioCreate"
    by (simp_all add: Scenario_def ScenarioCreate_def HurricaneHistorical_def)
  have tb: "table Scenario" "\<not> table ScenarioCreate" "table HurricaneHistorical"
    by (simp_all add: Scenario_def ScenarioCreate_def HurricaneHistorical_def)
  let ?f = "Field ''hurricane_category'' (TOptional TInt) [Default VNone, Ge 1, Le 5]"
  let ?g = "Field ''category'' TInt [Ge 1, Le 5]"
  from mc consider
      (S) "M = Scenario" "c = ''hurricane_category''"
    | (SC) "M = ScenarioCreate" "c = ''hurricane_category''"
    | (HH) "M = HurricaneHistorical" "c = ''category''"
    by auto
  then show ?thesis
  proof cases
    case S
    have mem: "?f \<in> set (model_fields Scenario)" by (simp add: Scenario_def)
    have "\<exists>obj'. construct now Scenario inp = Inr obj' \<and> read_attr obj' ''hurricane_category'' = v"
      if "inp ''hurricane_category'' = Some v"
      using table_keeps[OF tb(1) Scenario_distinct mem, of inp v now] that by simp
    with range_field[OF Scenario_distinct mem, of 1 5 inp n now]
      nullable_field[OF Scenario_distinct mem, of TInt now inp obj] S
      constructs_table[OF tb(1), of now inp] ne(1)
    show ?thesis by simp
  next
    case SC
    have mem: "?f \<in> set (model_fields ScenarioCreate)" by (simp add: ScenarioCreate_def)
    from range_field[OF ScenarioCreate_distinct mem, of 1 5 inp n now]
      nullable_field[OF ScenarioCreate_distinct mem, of TInt now inp obj] SC
      construct_plain[OF tb(2), of now inp]
    show ?thesis by simp
  next
    case HH
    have mem: "?g \<in> set (model_fields HurricaneHistorical)"
      by (simp add: HurricaneHistorical_def)
    have "\<not> accepts now HurricaneHistorical inp"
      if "inp ''category'' = None \<or> inp ''category'' = Some VNone"
      using required_field[OF mem, of inp now] that by simp
    moreover have "\<exists>obj'. construct now HurricaneHistorical inp = Inr obj' \<and> read_attr obj' ''category'' = v"
      if "inp ''category'' = Some v"
      using table_keeps[OF tb(3) HurricaneHistorical_distinct mem, of inp v now] that by simp
    ultimately show ?thesis
      using range_field[OF HurricaneHistorical_distinct mem, of 1 5 inp n now] HH
        constructs_table[OF tb(3), of now inp] ne(2)
      by simp
  qed
qed

theorem hurricane_category_range_witness:
  "\<not> accepts (DateTime 2025 1 1 0 0 0) Scenario
       (map_of [(''name'', VStr ''Gulf landfall''), (''description'', VStr ''Category 6''),
                (''scenario_type'', VStr ''HURRICANE''), (''severity_level'', VStr ''EXTREME''),
                (''start_date'', VDate (Date 2025 8 1)), (''end_date'', VDate (Date 2025 9 1)),
                (''hurricane_category'', VInt 6)])
   \<and> accepts (DateTime 2025 1 1 0 0 0) Scenario
       (map_of [(''name'', VStr ''Gulf landfall''), (''description'', VStr ''Base''),
                (''scenario_type'', VStr ''HURRICANE''), (''severity_level'', VStr ''EXTREME''),
                (''start_date'', VDate (Date 2025 8 1)), (''end_date'', VDate (Date 2025 9 1))])
   \<and> accepts (DateTime 2025 1 1 0 0 0) Scenario
       ((map_of [(''name'', VStr ''Gulf landfall''), (''description'', VStr ''Base''),
                (''scenario_type'', VStr ''HURRICANE''), (''severity_level'', VStr ''EXTREME''),
                (''start_date'', VDate (Date 2025 8 1)), (''end_date'', VDate (Date 2025 9 1))])
        (''hurricane_category'' \<mapsto> VInt 3))
   \<and> accepts (DateTime 2025 1 1 0 0 0) Scenario
       ((map_of [(''name'', VStr ''Gulf landfall''), (''description'', VStr ''Base''),
                (''scenario_type'', VStr ''HURRICANE''), (''severity_level'', VStr ''EXTREME''),
                (''start_date'', VDate (Date 2025 8 1)), (''end_date'', VDate (Date 2025 9 1))])
        (''hurricane_category'' \<mapsto> VNone))
   \<and> (case model_validate (DateTime 2025 1 1 0 0 0) Scenario
          (map_of [(''name'', VStr ''Gulf landfall''), (''description'', VStr ''Base''),
                (''scenario_type'', VStr ''HURRICANE''), (''severity_level'', VStr ''EXTREME''),
                (''start_date'', VDate (Date 2025 8 1)), (''end_date'', VDate (Date 2025 9 1))])
        of Inr obj \<Rightarrow> map_of obj ''hurricane_category'' | Inl errs \<Rightarrow> None) = Some VNone
   \<and> \<not> accepts (DateTime 2025 1 1 0 0 0) HurricaneHistorical
       (map_of [(''hurricane_name'', VStr ''Katrina''), (''year'', VInt 2005),
                (''landfall_date'', VDate (Date 2005 8 29))])
   \<and> \<not> constructs (DateTime 2025 1 1 0 0 0) ScenarioCreate
       (map_of [(''name'', VStr ''Gulf landfall''), (''description'', VStr ''Category 6''),
                (''scenario_type'', VStr ''HURRICANE''), (''severity_level'', VStr ''EXTREME''),
                (''start_date'', VDate (Date 2025 8 1)), (''end_date'', VDate (Date 2025 9 1)),
                (''hurricane_category'', VInt 6)])
   \<and> (case construct (DateTime 2025 1 1 0 0 0) Scenario
          (map_of [(''name'', VStr ''Gulf landfall''), (''description'', VStr ''Category 6''),
                (''scenario_type'', VStr ''HURRICANE''), (''severity_level'', VStr ''EXTREME''),
                (''start_date'', VDate (Date 2025 8 1)), (''end_date'', VDate (Date 2025 9 1)),
                (''hurricane_category'', VInt 6)])
        of Inr obj \<Rightarrow> read_attr obj ''hurricane_category'' | Inl errs \<Rightarrow> VNone) = VInt 6"
proof -
  let ?now = "DateTime 2025 1 1 0 0 0"
  let ?base = "map_of [(''name'', VStr ''Gulf landfall''), (''description'', VStr ''Base''),
                (''scenario_type'', VStr ''HURRICANE''), (''severity_level'', VStr ''EXTREME''),
                (''start_date'', VDate (Date 2025 8 1)), (''end_date'', VDate (Date 2025 9 1))]"
  let ?bad = "map_of [(''name'', VStr ''Gulf landfall''), (''description'', VStr ''Category 6''),
                (''scenario_type'', VStr ''HURRICANE''), (''severity_level'', VStr ''EXTREME''),
                (''start_date'', VDate (Date 2025 8 1)), (''end_date'', VDate (Date 2025 9 1)),
                (''hurricane_category'', VInt 6)]"
  let ?hh = "map_of [(''hurricane_name'', VStr ''Katrina''), (''year'', VInt 2005),
                (''landfall_date'', VDate (Date 2005 8 29))]"
  have s: "(Scenario, ''hurricane_category'') \<in> {(Scenario, ''hurricane_category''),
       (ScenarioCreate, ''hurricane_category''), (HurricaneHistorical, ''category'')}" by simp
  have sc: "(ScenarioCreate, ''hurricane_category'') \<in> {(Scenario, ''hurricane_category''),
       (ScenarioCreate, ''hurricane_category''), (HurricaneHistorical, ''category'')}" by simp
  have h: "(HurricaneHistorical, ''category'') \<in> {(Scenario, ''hurricane_category''),
       (ScenarioCreate, ''hurricane_category''), (HurricaneHistorical, ''category'')}" by simp
  have base: "accepts ?now Scenario ?base"
    by (simp add: eval_defs Scenario_def)
  then obtain obj where obj: "model_validate ?now Scenario ?base = Inr obj"
    by (auto simp: accepts_Inr)
  have bad: "?bad ''hurricane_category'' = Some (VInt 6) \<and> ((6::int) < 1 \<or> (5::int) < 6)"
    by simp
  have none: "?base ''hurricane_category'' = None" and hnone: "?hh ''category'' = None"
    by simp_all
  from hurricane_category_range[OF s, of ?bad 6 ?now] bad
  have 1: "\<not> accepts ?now Scenario ?bad" by blast
  from hurricane_category_range[OF s, of ?base 3 ?now] base
  have 2: "accepts ?now Scenario (?base(''hurricane_category'' \<mapsto> VInt 3))" by simp
  from hurricane_category_range[OF s, of ?base _ ?now] base
  have 3: "accepts ?now Scenario (?base(''hurricane_category'' \<mapsto> VNone))" by simp
  from hurricane_category_range[OF s, of ?base _ ?now obj] obj none
  have 4: "map_of obj ''hurricane_category'' = Some VNone" by blast
  from hurricane_category_range[OF h, of ?hh _ ?now] hnone
  have 5: "\<not> accepts ?now HurricaneHistorical ?hh" by blast
  from obj 4 have 4: "(case model_validate ?now Scenario ?base
        of Inr obj \<Rightarrow> map_of obj ''hurricane_category'' | Inl errs \<Rightarrow> None) = Some VNone"
    by (simp only: sum.case)
  from hurricane_category_range[OF sc, of ?bad 6 ?now] bad
  have "\<not> accepts ?now ScenarioCreate ?bad"
    and "construct ?now ScenarioCreate ?bad = model_validate ?now ScenarioCreate ?bad"
    by blast+
  then have 6: "\<not> constructs ?now ScenarioCreate ?bad"
    by (simp add: constructs_def accepts_def)
  have "Scenario \<noteq> ScenarioCreate" by (simp add: Scenario_def ScenarioCreate_def)
  with hurricane_category_range[OF s, of ?bad 6 ?now _ "VInt 6"] bad
  obtain cobj where "construct ?now Scenario ?bad = Inr cobj"
    "read_attr cobj ''hurricane_category'' = VInt 6" by blast
  then have 7: "(case construct ?now Scenario ?bad
        of Inr obj \<Rightarrow> read_attr obj ''hurricane_category'' | Inl errs \<Rightarrow> VNone) = VInt 6"
    by (simp only: sum.case)
  from 1 base 2 3 4 5 6 7 show ?thesis by blast
qed

text \<open>
  C6, as stated, says that construction with a value outside 1 to 5 is rejected. The
  constructor of the table \<^verbatim>\<open>Scenario\<close> takes \<^verbatim>\<open>hurricane_category = 6\<close> and keeps it.
\<close>

theorem Scenario_constructor_keeps_category_6:
  "construct (DateTime 2025 1 1 0 0 0) Scenario
     (map_of [(''name'', VStr ''Gulf landfall''), (''description'', VStr ''Category 6''),
              (''scenario_type'', VStr ''HURRICANE''), (''severity_level'', VStr ''EXTREME''),
              (''start_date'', VDate (Date 2025 8 1)), (''end_date'', VDate (Date 2025 9 1)),
              (''hurricane_category'', VInt 6)])
   = Inr [(''id'', VNone), (''name'', VStr ''Gulf landfall''),
          (''description'', VStr ''Category 6''), (''scenario_type'', VStr ''HURRICANE''),
          (''severity_level'', VStr ''EXTREME''), (''start_date'', VDate (Date 2025 8 1)),
          (''end_date'', VDate (Date 2025 9 1)), (''hurricane_category'', VInt 6),
          (''affected_regions'', VList []),
          (''production_impact_pct'', VDecimal (Decimal False [0] 0)),
          (''refining_capacity_impact_pct'', VDecimal (Decimal False [0] 0)),
          (''import_disruption_pct'', VDecimal (Decimal False [0] 0)),
          (''parameters'', VDict []), (''is_active'', VBool True), (''created_by'', VNone),
          (''created_at'', VDateTime (DateTime 2025 1 1 0 0 0))]"
  by (simp add: construct_def Scenario_def)

text \<open>
  C7, as amended: \<^verbatim>\<open>SeasonalPattern.month\<close> takes an integer exactly when it is between 1
  and 12 where the input is validated, by \<^verbatim>\<open>SeasonalPattern.model_validate\<close>: an input with
  a month outside the range is rejected, and putting a month into an accepted input
  gives an accepted input if and only if it is in the range. \<^verbatim>\<open>SeasonalPattern\<close> is a
  table, so its constructor does not validate: it raises no error and keeps the month
  it is given.
\<close>

theorem SeasonalPattern_month_range:
  "(inp ''month'' = Some (VInt n) \<and> (n < 1 \<or> 12 < n) \<longrightarrow> \<not> accepts now SeasonalPattern inp)
   \<and> (accepts now SeasonalPattern inp \<longrightarrow>
        (accepts now SeasonalPattern (inp(''month'' \<mapsto> VInt n)) \<longleftrightarrow> 1 \<le> n \<and> n \<le> 12))
   \<and> constructs now SeasonalPattern inp
   \<and> (inp ''month'' = Some v \<longrightarrow>
        (\<exists>obj. construct now SeasonalPattern inp = Inr obj \<and> read_attr obj ''month'' = v))"
proof -
  let ?f = "Field ''month'' TInt [Ge 1, Le 12]"
  have mem: "?f \<in> set (model_fields SeasonalPattern)"
    by (simp add: SeasonalPattern_def)
  have t: "table SeasonalPattern" by (simp add: SeasonalPattern_def)
  have "\<exists>obj. construct now SeasonalPattern inp = Inr obj \<and> read_attr obj ''month'' = v"
    if "inp ''month'' = Some v"
    using table_keeps[OF t SeasonalPattern_distinct mem, of inp v now] that by simp
  with range_field[OF SeasonalPattern_distinct mem, of 1 12 inp n now] constructs_table[OF t]
  show ?thesis by simp
qed

theorem SeasonalPattern_month_range_witness:
  "\<not> accepts (DateTime 2025 1 1 0 0 0) SeasonalPattern
       (map_of [(''product_type'', VStr ''GASOLINE''), (''disposition_type'', VStr ''DEMAND''),
                (''month'', VInt 13),
                (''seasonal_index'', VDecimal (Decimal False [1, 0, 5] (- 2)))])
   \<and> accepts (DateTime 2025 1 1 0 0 0) SeasonalPattern
       (map_of [(''product_type'', VStr ''GASOLINE''), (''disposition_type'', VStr ''DEMAND''),
                (''month'', VInt 7),
                (''seasonal_index'', VDecimal (Decimal False [1, 0, 5] (- 2)))])
   \<and> accepts (DateTime 2025 1 1 0 0 0) SeasonalPattern
       ((map_of [(''product_type'', VStr ''GASOLINE''), (''disposition_type'', VStr ''DEMAND''),
                (''month'', VInt 7),
                (''seasonal_index'', VDecimal (Decimal False [1, 0, 5] (- 2)))])
        (''month'' \<mapsto> VInt 12))
   \<and> \<not> accepts (DateTime 2025 1 1 0 0 0) SeasonalPattern
       ((map_of [(''product_type'', VStr ''GASOLINE''), (''disposition_type'', VStr ''DEMAND''),
                (''month'', VInt 7),
                (''seasonal_index'', VDecimal (Decimal False [1, 0, 5] (- 2)))])
        (''month'' \<mapsto> VInt 0))
   \<and> (case construct (DateTime 2025 1 1 0 0 0) SeasonalPattern
          (map_of [(''product_type'', VStr ''GASOLINE''), (''disposition_type'', VStr ''DEMAND''),
                (''month'', VInt 13),
                (''seasonal_index'', VDecimal (Decimal False [1, 0, 5] (- 2)))])
        of Inr obj \<Rightarrow> read_attr obj ''month'' | Inl errs \<Rightarrow> VNone) = VInt 13"
proof -
  let ?now = "DateTime 2025 1 1 0 0 0"
  let ?base = "map_of [(''product_type'', VStr ''GASOLINE''), (''disposition_type'', VStr ''DEMAND''),
                (''month'', VInt 7),
                (''seasonal_index'', VDecimal (Decimal False [1, 0, 5] (- 2)))]"
  let ?bad = "map_of [(''product_type'', VStr ''GASOLINE''), (''disposition_type'', VStr ''DEMAND''),
                (''month'', VInt 13),
                (''seasonal_index'', VDecimal (Decimal False [1, 0, 5] (- 2)))]"
  have base: "accepts ?now SeasonalPattern ?base"
    by (simp add: eval_defs SeasonalPattern_def)
  have bad: "?bad ''month'' = Some (VInt 13) \<and> ((13::int) < 1 \<or> (12::int) < 13)" by simp
  from SeasonalPattern_month_range[of ?bad 13 ?now] bad
  have 1: "\<not> accepts ?now SeasonalPattern ?bad" by blast
  from SeasonalPattern_month_range[of ?base 12 ?now] base
  have 2: "accepts ?now SeasonalPattern (?base(''month'' \<mapsto> VInt 12))" by simp
  from SeasonalPattern_month_range[of ?base 0 ?now] base
  have 3: "\<not> accepts ?now SeasonalPattern (?base(''month'' \<mapsto> VInt 0))" by simp
  from SeasonalPattern_month_range[of ?bad 13 ?now "VInt 13"] bad
  obtain obj where "construct ?now SeasonalPattern ?bad = Inr obj"
    "read_attr obj ''month'' = VInt 13" by blast
  then have 4: "(case construct ?now SeasonalPattern ?bad
        of Inr obj \<Rightarrow> read_attr obj ''month'' | Inl errs \<Rightarrow> VNone) = VInt 13"
    by (simp only: sum.case)
  from 1 base 2 3 4 show ?thesis by blast
qed

text \<open>
  C7, as stated, says that constructing a \<^verbatim>\<open>SeasonalPattern\<close> with a month outside 1 to 12
  is rejected. The constructor of the table takes month 13 and keeps it.
\<close>

theorem SeasonalPattern_constructor_keeps_month_13:
  "construct (DateTime 2025 1 1 0 0 0) SeasonalPattern
     (map_of [(''product_type'', VStr ''GASOLINE''), (''disposition_type'', VStr ''DEMAND''),
              (''month'', VInt 13),
              (''seasonal_index'', VDecimal (Decimal False [1, 0, 5] (- 2)))])
   = Inr [(''id'', VNone), (''product_type'', VStr ''GASOLINE''),
          (''disposition_type'', VStr ''DEMAND''), (''month'', VInt 13), (''region'', VNone),
          (''seasonal_index'', VDecimal (Decimal False [1, 0, 5] (- 2))),
          (''trend_factor'', VDecimal (Decimal False [1, 0] (- 1))),
          (''volatility_multiplier'', VDecimal (Decimal False [1, 0] (- 1))),
          (''years_of_data'', VInt 10),
          (''last_updated'', VDateTime (DateTime 2025 1 1 0 0 0)),
          (''created_at'', VDateTime (DateTime 2025 1 1 0 0 0))]"
  by (simp add: construct_def SeasonalPattern_def)

text \<open>
  C8: \<^verbatim>\<open>ScenarioUpdate\<close> can be built with no field set. The empty input validates, for
  any reading of the clock, and the object has every one of the ten attributes null; no
  attribute has to be present, since every field is \<^verbatim>\<open>Optional\<close> with default \<^verbatim>\<open>None\<close>.
\<close>

theorem ScenarioUpdate_empty_patch:
  "list_all nullable (model_fields ScenarioUpdate)
   \<and> model_validate now ScenarioUpdate Map.empty =
     Inr [(''name'', VNone), (''description'', VNone), (''severity_level'', VNone),
          (''start_date'', VNone), (''end_date'', VNone), (''production_impact_pct'', VNone),
          (''refining_capacity_impact_pct'', VNone), (''import_disruption_pct'', VNone),
          (''parameters'', VNone), (''is_active'', VNone)]"
  by (simp add: model_validate_def ScenarioUpdate_def validate_field_def nullable_def)



text \<open>
  C10, as amended: the day counts of \<^verbatim>\<open>HurricaneHistorical\<close> (\<^verbatim>\<open>production_disruption_days\<close>,
  \<^verbatim>\<open>recovery_days_production\<close>, \<^verbatim>\<open>recovery_days_refining\<close>) take an integer exactly when it
  is at least 0 where the input is validated, by \<^verbatim>\<open>HurricaneHistorical.model_validate\<close>: an
  input with a negative count is rejected, putting a count into an accepted input gives
  an accepted input if and only if the count is not negative, and a count left out is 0
  in the object. \<^verbatim>\<open>HurricaneHistorical\<close> is a table, so its constructor does not validate:
  it raises no error and keeps the count it is given.
\<close>

theorem HurricaneHistorical_day_counts_nonnegative:
  assumes c: "c \<in> {''production_disruption_days'', ''recovery_days_production'',
                    ''recovery_days_refining''}"
  shows "(inp c = Some (VInt n) \<and> n < 0 \<longrightarrow> \<not> accepts now HurricaneHistorical inp)
       \<and> (accepts now HurricaneHistorical inp \<longrightarrow>
            (accepts now HurricaneHistorical (inp(c \<mapsto> VInt n)) \<longleftrightarrow> 0 \<le> n))
       \<and> (model_validate now HurricaneHistorical inp = Inr obj \<and> inp c = None \<longrightarrow>
            map_of obj c = Some (VInt 0))
       \<and> constructs now HurricaneHistorical inp
       \<and> (inp c = Some v \<longrightarrow>
            (\<exists>obj'. construct now HurricaneHistorical inp = Inr obj' \<and> read_attr obj' c = v))"
proof -
  let ?f = "Field c TInt [Default (VInt 0), Ge 0]"
  from c have mem: "?f \<in> set (model_fields HurricaneHistorical)"
    by (auto simp: HurricaneHistorical_def)
  have t: "table HurricaneHistorical" by (simp add: HurricaneHistorical_def)
  have ok: "is_ok (validate_field now ?f (Some (VInt n))) \<longleftrightarrow> 0 \<le> n"
    by (simp add: int_field_ok)
  have "\<not> accepts now HurricaneHistorical inp" if "inp c = Some (VInt n)" "n < 0"
    using rejects_field_value[OF mem, of inp "VInt n" now] that ok by simp
  moreover have "accepts now HurricaneHistorical (inp(c \<mapsto> VInt n)) \<longleftrightarrow> 0 \<le> n"
    if "accepts now HurricaneHistorical inp"
    using accepts_update[OF HurricaneHistorical_distinct mem that, of "Some (VInt n)"] ok
    by simp
  moreover have "map_of obj c = Some (VInt 0)"
    if "model_validate now HurricaneHistorical inp = Inr obj" "inp c = None"
  proof -
    from that(2) have "validate_field now ?f (inp (fname ?f)) = Inr (VInt 0)"
      by (simp add: validate_field_def)
    from result_lookup[OF HurricaneHistorical_distinct mem that(1) this]
    show ?thesis by simp
  qed
  moreover have "\<exists>obj'. construct now HurricaneHistorical inp = Inr obj' \<and> read_attr obj' c = v"
    if "inp c = Some v"
    using table_keeps[OF t HurricaneHistorical_distinct mem, of inp v now] that by simp
  moreover note constructs_table[OF t, of now inp]
  ultimately show ?thesis by blast
qed

theorem HurricaneHistorical_day_counts_nonnegative_witness:
  "\<not> accepts (DateTime 2025 1 1 0 0 0) HurricaneHistorical
       (map_of [(''hurricane_name'', VStr ''Katrina''), (''year'', VInt 2005),
                (''category'', VInt 5), (''landfall_date'', VDate (Date 2005 8 29)),
                (''recovery_days_refining'', VInt (- 1))])
   \<and> accepts (DateTime 2025 1 1 0 0 0) HurricaneHistorical
       (map_of [(''hurricane_name'', VStr ''Katrina''), (''year'', VInt 2005),
                (''category'', VInt 5), (''landfall_date'', VDate (Date 2005 8 29))])
   \<and> accepts (DateTime 2025 1 1 0 0 0) HurricaneHistorical
       ((map_of [(''hurricane_name'', VStr ''Katrina''), (''year'', VInt 2005),
                (''category'', VInt 5), (''landfall_date'', VDate (Date 2005 8 29))])
        (''recovery_days_refining'' \<mapsto> VInt 30))
   \<and> (case model_validate (DateTime 2025 1 1 0 0 0) HurricaneHistorical
          (map_of [(''hurricane_name'', VStr ''Katrina''), (''year'', VInt 2005),
                (''category'', VInt 5), (''landfall_date'', VDate (Date 2005 8 29))])
       of Inr obj \<Rightarrow> map_of obj ''recovery_days_refining'' | Inl errs \<Rightarrow> None)
      = Some (VInt 0)
   \<and> (case construct (DateTime 2025 1 1 0 0 0) HurricaneHistorical
          (map_of [(''hurricane_name'', VStr ''Katrina''), (''year'', VInt 2005),
                (''category'', VInt 5), (''landfall_date'', VDate (Date 2005 8 29)),
                (''recovery_days_refining'', VInt (- 1))])
       of Inr obj \<Rightarrow> read_attr obj ''recovery_days_refining'' | Inl errs \<Rightarrow> VNone)
      = VInt (- 1)"
proof -
  let ?now = "DateTime 2025 1 1 0 0 0"
  let ?base = "map_of [(''hurricane_name'', VStr ''Katrina''), (''year'', VInt 2005),
                (''category'', VInt 5), (''landfall_date'', VDate (Date 2005 8 29))]"
  let ?bad = "map_of [(''hurricane_name'', VStr ''Katrina''), (''year'', VInt 2005),
                (''category'', VInt 5), (''landfall_date'', VDate (Date 2005 8 29)),
                (''recovery_days_refining'', VInt (- 1))]"
  have c: "''recovery_days_refining'' \<in> {''production_disruption_days'',
      ''recovery_days_production'', ''recovery_days_refining''}" by simp
  have base: "accepts ?now HurricaneHistorical ?base"
    by (simp add: accepts_def model_validate_def HurricaneHistorical_def validate_field_def
        check_int_def check_str_def)
  then obtain obj where obj: "model_validate ?now HurricaneHistorical ?base = Inr obj"
    by (auto simp: accepts_Inr)
  have bad: "?bad ''recovery_days_refining'' = Some (VInt (- 1)) \<and> (- 1 :: int) < 0" by simp
  have none: "?base ''recovery_days_refining'' = None" by simp
  from HurricaneHistorical_day_counts_nonnegative[OF c, of ?bad "- 1" ?now] bad
  have 1: "\<not> accepts ?now HurricaneHistorical ?bad" by blast
  from HurricaneHistorical_day_counts_nonnegative[OF c, of ?base 30 ?now] base
  have 2: "accepts ?now HurricaneHistorical (?base(''recovery_days_refining'' \<mapsto> VInt 30))"
    by simp
  from HurricaneHistorical_day_counts_nonnegative[OF c, of ?base _ ?now obj] obj none
  have 3: "map_of obj ''recovery_days_refining'' = Some (VInt 0)" by blast
  from obj 3 have 4: "(case model_validate ?now HurricaneHistorical ?base
       of Inr obj \<Rightarrow> map_of obj ''recovery_days_refining'' | Inl errs \<Rightarrow> None)
      = Some (VInt 0)"
    by (simp only: sum.case)
  from HurricaneHistorical_day_counts_nonnegative[OF c, of ?bad "- 1" ?now _ "VInt (- 1)"] bad
  obtain cobj where "construct ?now HurricaneHistorical ?bad = Inr cobj"
    "read_attr cobj ''recovery_days_refining'' = VInt (- 1)" by blast
  then have 5: "(case construct ?now HurricaneHistorical ?bad
       of Inr obj \<Rightarrow> read_attr obj ''recovery_days_refining'' | Inl errs \<Rightarrow> VNone)
      = VInt (- 1)"
    by (simp only: sum.case)
  from 1 base 2 4 5 show ?thesis by blast
qed

text \<open>
  C10, as stated, says that construction with a negative day count fails. The constructor
  of the table takes \<^verbatim>\<open>recovery_days_refining = -1\<close> and keeps it.
\<close>

theorem HurricaneHistorical_constructor_keeps_negative_days:
  "construct (DateTime 2025 1 1 0 0 0) HurricaneHistorical
     (map_of [(''hurricane_name'', VStr ''Katrina''), (''year'', VInt 2005),
              (''category'', VInt 5), (''landfall_date'', VDate (Date 2005 8 29)),
              (''recovery_days_refining'', VInt (- 1))])
   = Inr [(''id'', VNone), (''hurricane_name'', VStr ''Katrina''), (''year'', VInt 2005),
          (''category'', VInt 5), (''landfall_date'', VDate (Date 2005 8 29)),
          (''affected_regions'', VList []),
          (''refinery_capacity_lost_pct'', VDecimal (Decimal False [0] 0)),
          (''production_disruption_days'', VInt 0),
          (''price_spike_gasoline_pct'', VDecimal (Decimal False [0] 0)),
          (''price_spike_crude_pct'', VDecimal (Decimal False [0] 0)),
          (''recovery_days_production'', VInt 0),
          (''recovery_days_refining'', VInt (- 1)),
          (''notes'', VNone),
          (''created_at'', VDateTime (DateTime 2025 1 1 0 0 0))]"
  by (simp add: construct_def HurricaneHistorical_def)

end
